theory Spec2Isabelle
  imports Complex_Main "HOL-Library.AList" "HOL-Library.Sublist"
begin

section \<open>Python values, exceptions and formatting\<close>

text \<open>
  The program is one Python class, \<open>DiagnosticoPCAvancado\<close>. Its methods read the
  machine through the libraries psutil, cpuinfo, GPUtil, wmi and platform, and keep
  their results in four attributes: \<open>monitoring\<close>, \<open>monitoring_data\<close>, \<open>alerts\<close>
  and \<open>recommendations\<close>.

  Python floats are modelled by rationals. A reading that a library returns is
  compared with the limits as it is. Where the program computes in floating point, as
  in \<open>(usage.used / usage.total) * 100\<close>, \<open>gpu.load * 100\<close> and
  \<open>sum(xs) / len(xs)\<close>, the model has the exact quotient, which the float
  approximates to about sixteen digits: the decimal printed from a value can differ
  in its last digit when the exact value lies on a tie, and a value within this error
  of a limit could fall on its other side. The readings of the examples below are
  computed without error in floating point.

  Strings that are not ASCII in the source are written without their accents.
\<close>

datatype exn_class = PermissionError | ZeroDivisionError | UnboundLocalError | OtherException

text \<open>
  An exception, with its class and the text \<open>str(e)\<close>. All four classes are subclasses
  of Python's \<open>Exception\<close>, which is what a library call raises; \<open>OtherException\<close>
  stands for every other subclass (\<open>AttributeError\<close>, \<open>OSError\<close>, \<open>ValueError\<close>, ...).
\<close>

datatype exn = Exn exn_class string

fun exn_cls :: "exn \<Rightarrow> exn_class" where
  "exn_cls (Exn c msg) = c"

fun str :: "exn \<Rightarrow> string" where
  "str (Exn c msg) = msg"

datatype pyval =
    PyNone
  | PyBool bool
  | PyInt int
  | PyStr string
  | PyFmt nat rat string
  | PyList "pyval list"
  | PyDict "(string \<times> pyval) list"

type_synonym dict = "(string \<times> pyval) list"

text \<open>The decimal that \<open>f"{x:.df}"\<close> prints: \<open>x\<close> rounded to \<open>d\<close> places, ties to even.\<close>

definition round_half_even :: "rat \<Rightarrow> int" where
  "round_half_even x =
     (let f = \<lfloor>x\<rfloor>; r = x - of_int f
      in if r < 1 / 2 then f
         else if 1 / 2 < r then f + 1
         else if even f then f else f + 1)"

definition fmtf :: "nat \<Rightarrow> rat \<Rightarrow> rat" where
  "fmtf d x = of_int (round_half_even (x * 10 ^ d)) / 10 ^ d"

text \<open>\<open>f"{x:.df}tail"\<close>, kept as the printed decimal and the text after it.\<close>

definition fstring :: "nat \<Rightarrow> rat \<Rightarrow> string \<Rightarrow> pyval" where
  "fstring d x tail = PyFmt d (fmtf d x) tail"

text \<open>\<open>float(v.replace("%", ""))\<close>: only a number followed by nothing but \<open>%\<close> parses.\<close>

fun float_without_percent :: "pyval \<Rightarrow> exn + rat" where
  "float_without_percent (PyFmt d v tail) =
     (if tail = ''%'' \<or> tail = [] then Inr v
      else Inl (Exn OtherException ''could not convert string to float''))"
| "float_without_percent v = Inl (Exn OtherException ''could not convert string to float'')"

text \<open>\<open>d.update({...})\<close> and \<open>d.get(k, dflt)\<close> on a dictionary kept as an association
  list; \<open>k in d\<close> and \<open>d[k]\<close> are \<open>map_of d k\<close>.\<close>

definition dict_update :: "dict \<Rightarrow> dict \<Rightarrow> dict" where
  "dict_update d new = fold (\<lambda>(k, v). AList.update k v) new d"

text \<open>\<open>x or 'N/A'\<close> on an attribute that is a string or \<open>None\<close>.\<close>

fun or_NA :: "string option \<Rightarrow> pyval" where
  "or_NA None = PyStr ''N/A''"
| "or_NA (Some v) = (if v = [] then PyStr ''N/A'' else PyStr v)"

text \<open>\<open>name.lower()\<close> and \<open>sub in text\<close> on ASCII strings.\<close>

definition lower_char :: "char \<Rightarrow> char" where
  "lower_char c =
     (let n = (of_char c :: nat) in if 65 \<le> n \<and> n \<le> 90 then char_of (n + 32) else c)"

definition lower :: "string \<Rightarrow> string" where
  "lower name = map lower_char name"

definition contains :: "string \<Rightarrow> string \<Rightarrow> bool" where
  "contains sub text = list_ex (prefix sub) (suffixes text)"

definition dict_get :: "dict \<Rightarrow> string \<Rightarrow> pyval \<Rightarrow> pyval" where
  "dict_get d k dflt = (case map_of d k of None \<Rightarrow> dflt | Some v \<Rightarrow> v)"

section \<open>What the libraries return\<close>

text \<open>
  The named tuples of psutil, the objects of GPUtil and the rows of wmi, with the
  attributes the program reads. Byte counts are naturals, readings are rationals.
  An attribute that several of them share is prefixed with the type it belongs to.
\<close>

record svmem =
  vm_total :: nat
  vm_available :: nat
  vm_used :: nat
  vm_percent :: rat
  vm_free :: nat
  vm_cached :: "nat option"
  vm_buffers :: "nat option"

record sswap =
  sw_total :: nat
  sw_used :: nat
  sw_percent :: rat

record sdiskusage =
  du_total :: nat
  du_used :: nat
  du_free :: nat

text \<open>A partition, with what \<open>psutil.disk_usage(partition.mountpoint)\<close> does on it.\<close>

record sdiskpart =
  device :: string
  mountpoint :: string
  fstype :: string
  disk_usage :: "exn + sdiskusage"

record sdiskio =
  read_bytes :: nat
  write_bytes :: nat
  read_count :: nat
  write_count :: nat
  read_time :: nat
  write_time :: nat

record gpu =
  gpu_name :: string
  memoryTotal :: rat
  memoryUsed :: rat
  memoryFree :: rat
  load :: rat
  temperature :: rat
  uuid :: string
  driver :: "string option"

record snicaddr =
  family :: string
  address :: "string option"
  netmask :: "string option"
  broadcast :: "string option"

record snicstats =
  isup :: bool
  speed :: int
  mtu :: int

record snetio =
  bytes_sent :: nat
  bytes_recv :: nat
  packets_sent :: nat
  packets_recv :: nat
  errin :: nat
  errout :: nat

record physical_memory =
  Capacity :: "nat option"
  Speed :: "nat option"
  SMBIOSMemoryType :: "int option"
  pm_Manufacturer :: "string option"
  pm_SerialNumber :: "string option"
  DeviceLocator :: "string option"

record disk_drive =
  Model :: "string option"
  InterfaceType :: "string option"
  Size :: "nat option"
  dd_SerialNumber :: "string option"
  Status :: "string option"

record base_board =
  bb_Manufacturer :: "string option"
  Product :: "string option"
  Version :: "string option"
  bb_SerialNumber :: "string option"

record bios_row =
  bios_Manufacturer :: "string option"
  SMBIOSBIOSVersion :: "string option"
  ReleaseDate :: "string option"

record processor_row =
  SocketDesignation :: "string option"
  Description :: "string option"

record platform_info =
  pf_version :: string
  pf_release :: string
  pf_architecture :: string
  pf_processor :: string
  pf_machine :: string
  pf_node :: string

text \<open>
  The machine as one query sees it: which libraries were imported
  (\<open>available_libs.get(...)\<close>), and for every library call of the program either the
  exception it raises or the value it returns. \<open>disk_temperature\<close> is the temperature
  of the drive; the program has no call that reads it.
\<close>

record machine =
  has_psutil :: bool
  has_cpuinfo :: bool
  has_GPUtil :: bool
  has_wmi :: bool
  platform_system :: string
  platform_rest :: "exn + platform_info"
  cpu_percent :: "exn + rat"
  cpu_count_physical :: "exn + int option"
  cpu_count_logical :: "exn + int option"
  cpu_freq :: "exn + (rat \<times> rat) option"
  sensors_temperatures :: "exn + (string \<times> rat list) list"
  virtual_memory :: "exn + svmem"
  swap_memory :: "exn + sswap"
  disk_partitions :: "exn + sdiskpart list"
  disk_io_counters :: "exn + sdiskio option"
  boot_time :: "exn + rat"
  users :: "exn + nat"
  net_if_addrs :: "exn + (string \<times> snicaddr list) list"
  net_if_stats :: "exn + (string \<times> snicstats) list"
  net_io_counters :: "exn + snetio option"
  cpuinfo_get_cpu_info :: "exn + dict"
  getGPUs :: "exn + gpu list"
  wmi_WMI :: "exn + unit"
  Win32_PhysicalMemory :: "exn + physical_memory list"
  Win32_DiskDrive :: "exn + disk_drive list"
  Win32_BaseBoard :: "exn + base_board list"
  Win32_BIOS :: "exn + bios_row list"
  Win32_Processor :: "exn + processor_row list"
  now :: rat
  disk_temperature :: "rat option"

section \<open>The state of the engine\<close>

datatype tipo = CRITICO | AVISO

datatype componente = CPU | GPU | RAM | SWAP | DISCO | GERAL | SISTEMA | DIAGNOSTICO

datatype prioridade = CRITICA | ALTA | MEDIA | BAIXA

datatype categoria = Performance | Hardware | Armazenamento | Manutencao | Seguranca | Sistema

text \<open>
  The f-string of an alert's \<open>'mensagem'\<close>: which text it is, and the values printed
  in it (a reading is printed with one decimal).
\<close>

datatype mensagem =
    Temperatura_critica rat int
  | Temperatura_alta rat int
  | Uso_alto_de_memoria_VRAM rat
  | Uso_critico_de_memoria rat
  | Uso_alto_de_memoria rat
  | Uso_alto_de_arquivo_de_troca rat
  | Espaco_critico_em string rat
  | Espaco_baixo_em string rat

datatype problema =
    Uso_alto_de_CPU rat
  | Uso_alto_de_GPU rat
  | Uso_alto_de_memoria_RAM rat
  | Espaco_critico string rat
  | Espaco_baixo string rat
  | Manutencao_preventiva
  | Seguranca_do_sistema
  | Erro_na_analise

text \<open>
  An alert and a recommendation are dictionaries that share the keys
  \<open>'componente'\<close> and \<open>'prioridade'\<close>.
\<close>

record entry =
  componente :: componente
  prioridade :: prioridade

record alert = entry +
  tipo :: tipo
  mensagem :: mensagem

record recommendation = entry +
  categoria :: categoria
  problema :: problema
  recomendacao :: string

record monitoring_data_t =
  cpu_usage :: "rat list"
  gpu_usage :: "rat list"
  memory_usage :: "rat list"
  cpu_temp :: "rat list"
  gpu_temp :: "rat list"
  timestamps :: "rat list"

text \<open>
  What the program writes to the monitoring log, line by line: the start with the
  duration and the line of its time, a high CPU or RAM reading with the time of its
  tick, an error with its text, and the lines of the end, among them
  \<open>X - Media: a%, Maximo: b%\<close>, which \<open>generate_complete_report\<close> prints as
  well after its line \<open>Periodo: n amostras coletadas\<close>. The clock times that the
  start, the end and an error print are left out.
\<close>

datatype log_line =
    Monitoramento_iniciado int
  | Inicio
  | CPU_alta rat rat
  | RAM_alta rat rat
  | Erro string
  | Monitoramento_finalizado
  | Dados_coletados nat
  | Media_Maximo string rat rat
  | Periodo nat

record engine =
  monitoring :: bool
  monitoring_data :: monitoring_data_t
  alerts :: "alert list"
  recommendations :: "recommendation list"
  monitoring_log :: "log_line list"

record limits =
  cpu_warning :: int
  cpu_critical :: int
  gpu_warning :: int
  gpu_critical :: int
  disk_warning :: int
  disk_critical :: int

definition temp_limits :: limits where
  "temp_limits = \<lparr>cpu_warning = 75, cpu_critical = 85, gpu_warning = 80,
     gpu_critical = 90, disk_warning = 50, disk_critical = 60\<rparr>"

text \<open>The state that \<open>__init__\<close> builds.\<close>

definition init :: engine where
  "init = \<lparr>monitoring = False,
     monitoring_data = \<lparr>cpu_usage = [], gpu_usage = [], memory_usage = [], cpu_temp = [],
       gpu_temp = [], timestamps = []\<rparr>,
     alerts = [], recommendations = [], monitoring_log = []\<rparr>"

definition append_alert :: "alert \<Rightarrow> engine \<Rightarrow> engine" where
  "append_alert a s = s\<lparr>alerts := alerts s @ [a]\<rparr>"

definition append_recommendation :: "recommendation \<Rightarrow> engine \<Rightarrow> engine" where
  "append_recommendation r s = s\<lparr>recommendations := recommendations s @ [r]\<rparr>"


section \<open>The telemetry queries\<close>

text \<open>
  A call of a method is a function of the machine and of the state of the engine. It
  gives the outcome of the call, \<open>Inl e\<close> when the call raises \<open>e\<close> to its caller and
  \<open>Inr v\<close> when it returns \<open>v\<close>, and the state the call leaves. What a method has
  written before an exception stays written.
\<close>

subsection \<open>\<open>get_cpu_info\<close>\<close>

text \<open>The first \<open>cpu_info.update\<close>: the dictionary is built before it is merged, so an
  exception in one of its values leaves \<open>cpu_info\<close> as it was.\<close>

fun int_or_None :: "int option \<Rightarrow> pyval" where
  "int_or_None None = PyNone"
| "int_or_None (Some n) = PyInt n"

fun MHz_or_NA :: "rat option \<Rightarrow> pyval" where
  "MHz_or_NA None = PyStr ''N/A''"
| "MHz_or_NA (Some f) = fstring 0 f '' MHz''"

definition cpu_psutil_block :: "machine \<Rightarrow> dict \<Rightarrow> exn + dict" where
  "cpu_psutil_block m cpu_info =
     (if has_psutil m then
        (case cpu_percent m of Inl e \<Rightarrow> Inl e | Inr uso \<Rightarrow>
        (case cpu_count_physical m of Inl e \<Rightarrow> Inl e | Inr fisicos \<Rightarrow>
        (case cpu_count_logical m of Inl e \<Rightarrow> Inl e | Inr logicos \<Rightarrow>
        (case cpu_freq m of Inl e \<Rightarrow> Inl e | Inr freq \<Rightarrow>
           Inr (dict_update cpu_info
             [(''uso_atual'', fstring 1 uso ''%''),
              (''nucleos_fisicos'', int_or_None fisicos),
              (''nucleos_logicos'', int_or_None logicos),
              (''frequencia_atual'', MHz_or_NA (map_option fst freq)),
              (''frequencia_maxima'', MHz_or_NA (map_option snd freq))])))))
      else Inr cpu_info)"

definition cpu_cpuinfo_block :: "machine \<Rightarrow> dict \<Rightarrow> exn + dict" where
  "cpu_cpuinfo_block m cpu_info =
     (if has_cpuinfo m then
        (case cpuinfo_get_cpu_info m of Inl e \<Rightarrow> Inl e | Inr info \<Rightarrow>
           Inr (dict_update cpu_info
             [(''modelo'', dict_get info ''brand_raw'' (PyStr ''N/A'')),
              (''fabricante'', dict_get info ''vendor_id_raw'' (PyStr ''N/A'')),
              (''arquitetura'', dict_get info ''arch'' (PyStr ''N/A'')),
              (''cache_l1'', dict_get info ''l1_data_cache_size'' (PyStr ''N/A'')),
              (''cache_l2'', dict_get info ''l2_cache_size'' (PyStr ''N/A'')),
              (''cache_l3'', dict_get info ''l3_cache_size'' (PyStr ''N/A'')),
              (''flags'', dict_get info ''flags'' (PyList []))]))
      else Inr cpu_info)"

text \<open>
  The loop over \<open>sensors.items()\<close>, which \<open>get_cpu_info\<close> and \<open>get_cpu_temperature\<close>
  both have: the first sensor whose name has \<open>coretemp\<close> or \<open>cpu\<close> in it and that has
  an entry gives the temperature, \<open>entries[0].current\<close>.
\<close>

fun first_cpu_sensor :: "(string \<times> rat list) list \<Rightarrow> rat option" where
  "first_cpu_sensor [] = None"
| "first_cpu_sensor ((name, entries) # rest) =
     (if contains ''coretemp'' (lower name) \<or> contains ''cpu'' (lower name) then
        (case entries of [] \<Rightarrow> first_cpu_sensor rest | current # others \<Rightarrow> Some current)
      else first_cpu_sensor rest)"

definition cpu_temperature_alert :: "rat \<Rightarrow> engine \<Rightarrow> engine" where
  "cpu_temperature_alert temp s =
     (if temp > of_int (cpu_critical temp_limits) then
        append_alert \<lparr>componente = CPU, prioridade = ALTA, tipo = CRITICO,
          mensagem = Temperatura_critica (fmtf 1 temp) (cpu_critical temp_limits)\<rparr> s
      else if temp > of_int (cpu_warning temp_limits) then
        append_alert \<lparr>componente = CPU, prioridade = MEDIA, tipo = AVISO,
          mensagem = Temperatura_alta (fmtf 1 temp) (cpu_warning temp_limits)\<rparr> s
      else s)"

text \<open>The inner \<open>try\<close>, whose bare \<open>except\<close> catches whatever the sensors raise.\<close>

definition cpu_temperature_block :: "machine \<Rightarrow> dict \<Rightarrow> engine \<Rightarrow> dict \<times> engine" where
  "cpu_temperature_block m cpu_info s =
     (if has_psutil m then
        (case sensors_temperatures m of
           Inl e \<Rightarrow>
             (AList.update ''temperatura'' (PyStr ''N/A (sensores nao acessiveis)'') cpu_info, s)
         | Inr sensors \<Rightarrow>
             (case first_cpu_sensor sensors of
                None \<Rightarrow> (cpu_info, s)
              | Some temp \<Rightarrow>
                  (AList.update ''temperatura'' (fstring 1 temp ''C'') cpu_info,
                   cpu_temperature_alert temp s)))
      else (cpu_info, s))"

definition get_cpu_info :: "machine \<Rightarrow> engine \<Rightarrow> (exn + dict) \<times> engine" where
  "get_cpu_info m s =
     (let cpu_info = [(''erro'', PyStr ''Informacoes nao disponiveis'')] in
      case cpu_psutil_block m cpu_info of
        Inl e \<Rightarrow>
          (Inr (AList.update ''erro''
             (PyStr (''Erro ao obter informacoes do CPU: '' @ str e)) cpu_info), s)
      | Inr cpu_info1 \<Rightarrow>
          (case cpu_cpuinfo_block m cpu_info1 of
             Inl e \<Rightarrow>
               (Inr (AList.update ''erro''
                  (PyStr (''Erro ao obter informacoes do CPU: '' @ str e)) cpu_info1), s)
           | Inr cpu_info2 \<Rightarrow>
               (case cpu_temperature_block m cpu_info2 s of
                  (cpu_info3, s') \<Rightarrow> (Inr cpu_info3, s'))))"

subsection \<open>\<open>get_gpu_info\<close>\<close>

text \<open>\<open>x.attr if hasattr(x, 'attr') else 'N/A'\<close>, then printed in an f-string or not.\<close>

fun attr_or_NA :: "string option \<Rightarrow> pyval" where
  "attr_or_NA None = PyStr ''N/A''"
| "attr_or_NA (Some v) = PyStr v"

fun GB_or_NA :: "nat option \<Rightarrow> pyval" where
  "GB_or_NA None = PyStr ''N/A''"
| "GB_or_NA (Some bytes) = fstring 2 (of_nat bytes / 1024 ^ 3) '' GB''"

definition gpu_temperature_alert :: "rat \<Rightarrow> engine \<Rightarrow> engine" where
  "gpu_temperature_alert temp s =
     (if temp > of_int (gpu_critical temp_limits) then
        append_alert \<lparr>componente = GPU, prioridade = ALTA, tipo = CRITICO,
          mensagem = Temperatura_critica (fmtf 1 temp) (gpu_critical temp_limits)\<rparr> s
      else if temp > of_int (gpu_warning temp_limits) then
        append_alert \<lparr>componente = GPU, prioridade = MEDIA, tipo = AVISO,
          mensagem = Temperatura_alta (fmtf 1 temp) (gpu_warning temp_limits)\<rparr> s
      else s)"

definition gpu_memory_alert :: "rat \<Rightarrow> engine \<Rightarrow> engine" where
  "gpu_memory_alert mem_usage_percent s =
     (if mem_usage_percent > 90 then
        append_alert \<lparr>componente = GPU, prioridade = MEDIA, tipo = AVISO,
          mensagem = Uso_alto_de_memoria_VRAM (fmtf 1 mem_usage_percent)\<rparr> s
      else s)"

text \<open>\<open>gpu.memoryUsed / gpu.memoryTotal\<close> raises when the total is zero, inside the
  dictionary display, so \<open>gpu_info\<close> is not assigned and no alert is appended.\<close>

definition get_gpu_info :: "machine \<Rightarrow> engine \<Rightarrow> (exn + dict) \<times> engine" where
  "get_gpu_info m s =
     (let gpu_info = [(''erro'', PyStr ''Informacoes nao disponiveis'')];
          erro = (\<lambda>e. AList.update ''erro''
                    (PyStr (''Erro ao obter informacoes da GPU: '' @ str e)))
      in if has_GPUtil m then
           (case getGPUs m of
              Inl e \<Rightarrow> (Inr (erro e gpu_info), s)
            | Inr [] \<Rightarrow> (Inr [(''erro'', PyStr ''Nenhuma GPU NVIDIA/AMD detectada'')], s)
            | Inr (g # others) \<Rightarrow>
                if memoryTotal g = 0 then
                  (Inr (erro (Exn ZeroDivisionError ''float division by zero'') gpu_info), s)
                else
                  (Inr [(''modelo'', PyStr (gpu_name g)),
                        (''memoria_total'', fstring 0 (memoryTotal g) '' MB''),
                        (''memoria_usada'', fstring 0 (memoryUsed g) '' MB''),
                        (''memoria_livre'', fstring 0 (memoryFree g) '' MB''),
                        (''uso_gpu'', fstring 1 (load g * 100) ''%''),
                        (''uso_memoria'',
                           fstring 1 (memoryUsed g / memoryTotal g * 100) ''%''),
                        (''temperatura'', fstring 1 (temperature g) ''C''),
                        (''uuid'', PyStr (uuid g)),
                        (''driver'', attr_or_NA (driver g))],
                   gpu_memory_alert (memoryUsed g / memoryTotal g * 100)
                     (gpu_temperature_alert (temperature g) s)))
         else
           (Inr [(''erro'', PyStr ''GPUtil nao disponivel - instale com: pip install GPUtil'')],
            s))"


subsection \<open>\<open>get_memory_info\<close>\<close>

definition memory_alert :: "rat \<Rightarrow> engine \<Rightarrow> engine" where
  "memory_alert percent s =
     (if percent > 90 then
        append_alert \<lparr>componente = RAM, prioridade = ALTA, tipo = CRITICO,
          mensagem = Uso_critico_de_memoria (fmtf 1 percent)\<rparr> s
      else if percent > 80 then
        append_alert \<lparr>componente = RAM, prioridade = MEDIA, tipo = AVISO,
          mensagem = Uso_alto_de_memoria (fmtf 1 percent)\<rparr> s
      else s)"

definition swap_alert :: "rat \<Rightarrow> engine \<Rightarrow> engine" where
  "swap_alert percent s =
     (if percent > 50 then
        append_alert \<lparr>componente = SWAP, prioridade = BAIXA, tipo = AVISO,
          mensagem = Uso_alto_de_arquivo_de_troca (fmtf 1 percent)\<rparr> s
      else s)"

definition swap_block :: "sswap \<Rightarrow> dict \<Rightarrow> engine \<Rightarrow> dict \<times> engine" where
  "swap_block swap memory_info s =
     (if sw_total swap > 0 then
        (dict_update memory_info
           [(''swap_total'', fstring 2 (of_nat (sw_total swap) / 1024 ^ 3) '' GB''),
            (''swap_usado'', fstring 2 (of_nat (sw_used swap) / 1024 ^ 3) '' GB''),
            (''swap_porcentagem'', fstring 1 (sw_percent swap) ''%'')],
         swap_alert (sw_percent swap) s)
      else (memory_info, s))"

definition module_info :: "physical_memory \<Rightarrow> pyval" where
  "module_info memory = PyDict
     [(''capacidade'',
         case Capacity memory of None \<Rightarrow> PyStr ''N/A''
         | Some c \<Rightarrow> fstring 0 (of_nat c / 1024 ^ 3) '' GB''),
      (''velocidade'',
         case Speed memory of None \<Rightarrow> PyStr ''N/A''
         | Some v \<Rightarrow> if v = 0 then PyStr ''N/A'' else PyFmt 0 (of_nat v) '' MHz''),
      (''tipo'',
         case SMBIOSMemoryType memory of None \<Rightarrow> PyStr ''N/A''
         | Some t \<Rightarrow> if t = 0 then PyStr ''N/A'' else PyInt t),
      (''fabricante'', or_NA (pm_Manufacturer memory)),
      (''numero_serie'', or_NA (pm_SerialNumber memory)),
      (''localizacao'', or_NA (DeviceLocator memory))]"

text \<open>The inner \<open>try\<close> around wmi, whose bare \<open>except\<close> passes.\<close>

definition memory_wmi_block :: "machine \<Rightarrow> dict \<Rightarrow> dict" where
  "memory_wmi_block m memory_info =
     (if has_wmi m \<and> platform_system m = ''Windows'' then
        (case wmi_WMI m of
           Inl e \<Rightarrow> memory_info
         | Inr c \<Rightarrow>
             (case Win32_PhysicalMemory m of
                Inl e \<Rightarrow> memory_info
              | Inr rows \<Rightarrow>
                  if rows = [] then memory_info
                  else dict_update memory_info
                    [(''modulos'', PyList (map module_info rows)),
                     (''slots_ocupados'', PyInt (int (length rows)))]))
      else memory_info)"

definition get_memory_info :: "machine \<Rightarrow> engine \<Rightarrow> (exn + dict) \<times> engine" where
  "get_memory_info m s =
     (let erro = (\<lambda>e. AList.update ''erro''
                    (PyStr (''Erro ao obter informacoes da memoria: '' @ str e)))
      in if has_psutil m then
           (case virtual_memory m of
              Inl e \<Rightarrow> (Inr (erro e [(''erro'', PyStr ''Informacoes nao disponiveis'')]), s)
            | Inr mem \<Rightarrow>
                (let memory_info =
                       [(''total'', fstring 2 (of_nat (vm_total mem) / 1024 ^ 3) '' GB''),
                        (''disponivel'', fstring 2 (of_nat (vm_available mem) / 1024 ^ 3) '' GB''),
                        (''usada'', fstring 2 (of_nat (vm_used mem) / 1024 ^ 3) '' GB''),
                        (''porcentagem_uso'', fstring 1 (vm_percent mem) ''%''),
                        (''livre'', fstring 2 (of_nat (vm_free mem) / 1024 ^ 3) '' GB''),
                        (''em_cache'', GB_or_NA (vm_cached mem)),
                        (''buffers'', GB_or_NA (vm_buffers mem))];
                     s1 = memory_alert (vm_percent mem) s
                 in case swap_memory m of
                      Inl e \<Rightarrow> (Inr (erro e memory_info), s1)
                    | Inr swap \<Rightarrow>
                        (case swap_block swap memory_info s1 of
                           (memory_info2, s2) \<Rightarrow>
                             (Inr (memory_wmi_block m memory_info2), s2))))
         else (Inr [(''erro'', PyStr ''Informacoes nao disponiveis'')], s))"

subsection \<open>\<open>get_storage_info\<close>\<close>

definition disk_space_alert :: "string \<Rightarrow> rat \<Rightarrow> engine \<Rightarrow> engine" where
  "disk_space_alert dev usage_percent s =
     (if usage_percent > 95 then
        append_alert \<lparr>componente = DISCO, prioridade = ALTA, tipo = CRITICO,
          mensagem = Espaco_critico_em dev (fmtf 1 usage_percent)\<rparr> s
      else if usage_percent > 85 then
        append_alert \<lparr>componente = DISCO, prioridade = MEDIA, tipo = AVISO,
          mensagem = Espaco_baixo_em dev (fmtf 1 usage_percent)\<rparr> s
      else s)"

text \<open>
  The loop over the partitions. A \<open>PermissionError\<close> of \<open>disk_usage\<close> goes on with the
  next partition; any other exception, and the division by a total of zero, leave
  the loop with the devices and alerts appended so far.
\<close>

fun partitions_loop ::
  "sdiskpart list \<Rightarrow> pyval list \<Rightarrow> engine \<Rightarrow> (exn + unit) \<times> pyval list \<times> engine" where
  "partitions_loop [] dispositivos s = (Inr (), dispositivos, s)"
| "partitions_loop (part # rest) dispositivos s =
     (case disk_usage part of
        Inl e \<Rightarrow>
          if exn_cls e = PermissionError then partitions_loop rest dispositivos s
          else (Inl e, dispositivos, s)
      | Inr usage \<Rightarrow>
          if du_total usage = 0 then
            (Inl (Exn ZeroDivisionError ''division by zero''), dispositivos, s)
          else
            (let usage_percent = of_nat (du_used usage) / of_nat (du_total usage) * 100;
                 device_info = PyDict
                   [(''dispositivo'', PyStr (device part)),
                    (''ponto_montagem'', PyStr (mountpoint part)),
                    (''sistema_arquivos'', PyStr (fstype part)),
                    (''tamanho_total'', fstring 2 (of_nat (du_total usage) / 1024 ^ 3) '' GB''),
                    (''usado'', fstring 2 (of_nat (du_used usage) / 1024 ^ 3) '' GB''),
                    (''livre'', fstring 2 (of_nat (du_free usage) / 1024 ^ 3) '' GB''),
                    (''porcentagem_uso'', fstring 1 usage_percent ''%'')]
             in partitions_loop rest (dispositivos @ [device_info])
                  (disk_space_alert (device part) usage_percent s)))"

definition storage_io_block :: "machine \<Rightarrow> dict \<Rightarrow> dict" where
  "storage_io_block m storage_info =
     (case disk_io_counters m of
        Inl e \<Rightarrow> storage_info
      | Inr None \<Rightarrow> storage_info
      | Inr (Some disk_io) \<Rightarrow>
          AList.update ''estatisticas_io'' (PyDict
            [(''bytes_lidos'', fstring 2 (of_nat (read_bytes disk_io) / 1024 ^ 3) '' GB''),
             (''bytes_escritos'', fstring 2 (of_nat (write_bytes disk_io) / 1024 ^ 3) '' GB''),
             (''operacoes_leitura'', PyInt (int (read_count disk_io))),
             (''operacoes_escrita'', PyInt (int (write_count disk_io))),
             (''tempo_leitura'', fstring 2 (of_nat (read_time disk_io) / 1000) '' s''),
             (''tempo_escrita'', fstring 2 (of_nat (write_time disk_io) / 1000) '' s'')])
            storage_info)"

definition smart_info :: "disk_drive \<Rightarrow> pyval" where
  "smart_info disk = PyDict
     [(''modelo'', or_NA (Model disk)),
      (''interface'', or_NA (InterfaceType disk)),
      (''tamanho'', GB_or_NA (Size disk)),
      (''numero_serie'', or_NA (dd_SerialNumber disk)),
      (''status'', or_NA (Status disk))]"

text \<open>\<open>storage_info["dispositivos"][0]["smart"] = smart_info\<close>\<close>

fun set_smart :: "pyval \<Rightarrow> pyval list \<Rightarrow> pyval list" where
  "set_smart v (PyDict d # rest) = PyDict (AList.update ''smart'' v d) # rest"
| "set_smart v dispositivos = dispositivos"

definition storage_wmi_block :: "machine \<Rightarrow> pyval list \<Rightarrow> pyval list" where
  "storage_wmi_block m dispositivos =
     (if has_wmi m \<and> platform_system m = ''Windows'' then
        (case wmi_WMI m of
           Inl e \<Rightarrow> dispositivos
         | Inr c \<Rightarrow>
             (case Win32_DiskDrive m of
                Inl e \<Rightarrow> dispositivos
              | Inr [] \<Rightarrow> dispositivos
              | Inr (disk # others) \<Rightarrow> set_smart (smart_info disk) dispositivos))
      else dispositivos)"

definition get_storage_info :: "machine \<Rightarrow> engine \<Rightarrow> (exn + dict) \<times> engine" where
  "get_storage_info m s =
     (let erro = (\<lambda>e. AList.update ''erro''
                    (PyStr (''Erro ao obter informacoes de armazenamento: '' @ str e)))
      in if has_psutil m then
           (case disk_partitions m of
              Inl e \<Rightarrow> (Inr (erro e [(''dispositivos'', PyList []), (''erro'', PyNone)]), s)
            | Inr partitions \<Rightarrow>
                (case partitions_loop partitions [] s of
                   (Inl e, dispositivos, s') \<Rightarrow>
                     (Inr (erro e [(''dispositivos'', PyList dispositivos), (''erro'', PyNone)]),
                      s')
                 | (Inr u, dispositivos, s') \<Rightarrow>
                     (Inr (storage_io_block m
                        [(''dispositivos'', PyList (storage_wmi_block m dispositivos)),
                         (''erro'', PyNone)]), s')))
         else (Inr [(''dispositivos'', PyList []), (''erro'', PyNone)], s))"


subsection \<open>\<open>get_motherboard_info\<close>, \<open>get_system_info\<close>, \<open>get_network_info\<close>\<close>

definition board_block :: "base_board list \<Rightarrow> dict \<Rightarrow> dict" where
  "board_block rows mb_info =
     (case rows of
        [] \<Rightarrow> mb_info
      | board # others \<Rightarrow>
          [(''fabricante'', or_NA (bb_Manufacturer board)),
           (''modelo'', or_NA (Product board)),
           (''versao'', or_NA (Version board)),
           (''numero_serie'', or_NA (bb_SerialNumber board))])"

fun release_date :: "string option \<Rightarrow> pyval" where
  "release_date None = PyStr ''N/A''"
| "release_date (Some v) = (if v = [] then PyStr ''N/A'' else PyStr (take 8 v))"

definition bios_block :: "bios_row list \<Rightarrow> dict \<Rightarrow> dict" where
  "bios_block rows mb_info =
     (case rows of
        [] \<Rightarrow> mb_info
      | bios # others \<Rightarrow>
          dict_update mb_info
            [(''bios_fabricante'', or_NA (bios_Manufacturer bios)),
             (''bios_versao'', or_NA (SMBIOSBIOSVersion bios)),
             (''bios_data'', release_date (ReleaseDate bios))])"

definition processor_block :: "processor_row list \<Rightarrow> dict \<Rightarrow> dict" where
  "processor_block rows mb_info =
     (case rows of
        [] \<Rightarrow> mb_info
      | processor # others \<Rightarrow>
          dict_update mb_info
            [(''socket'', or_NA (SocketDesignation processor)),
             (''chipset'', or_NA (Description processor))])"

definition get_motherboard_info :: "machine \<Rightarrow> engine \<Rightarrow> (exn + dict) \<times> engine" where
  "get_motherboard_info m s =
     (let mb_info = [(''erro'', PyStr ''Informacoes nao disponiveis'')];
          erro = (\<lambda>e. AList.update ''erro''
                    (PyStr (''Erro ao obter informacoes da placa-mae: '' @ str e)))
      in if has_wmi m \<and> platform_system m = ''Windows'' then
           (case wmi_WMI m of
              Inl e \<Rightarrow> (Inr (erro e mb_info), s)
            | Inr c \<Rightarrow>
                (case Win32_BaseBoard m of
                   Inl e \<Rightarrow> (Inr (erro e mb_info), s)
                 | Inr boards \<Rightarrow>
                     (let mb_info1 = board_block boards mb_info in
                      case Win32_BIOS m of
                        Inl e \<Rightarrow> (Inr (erro e mb_info1), s)
                      | Inr bioses \<Rightarrow>
                          (let mb_info2 = bios_block bioses mb_info1 in
                           case Win32_Processor m of
                             Inl e \<Rightarrow> (Inr (erro e mb_info2), s)
                           | Inr processors \<Rightarrow>
                               (Inr (processor_block processors mb_info2), s)))))
         else
           (Inr [(''erro'',
                  PyStr ''WMI nao disponivel - informacoes limitadas no seu sistema'')], s))"

text \<open>
  The start of the system and the time it has been up are printed to the second; the
  dictionary keeps the second of the start and the whole seconds since then.
\<close>

definition system_psutil_block :: "machine \<Rightarrow> dict \<Rightarrow> exn + dict" where
  "system_psutil_block m sys_info =
     (if has_psutil m then
        (case boot_time m of Inl e \<Rightarrow> Inl e | Inr boot \<Rightarrow>
        (case users m of Inl e \<Rightarrow> Inl e | Inr logged \<Rightarrow>
           Inr (dict_update sys_info
             [(''tempo_inicializacao'', PyInt \<lfloor>boot\<rfloor>),
              (''tempo_atividade'', PyInt \<lfloor>now m - boot\<rfloor>),
              (''usuarios_logados'', PyInt (int logged))])))
      else Inr sys_info)"

definition get_system_info :: "machine \<Rightarrow> engine \<Rightarrow> (exn + dict) \<times> engine" where
  "get_system_info m s =
     (let erro = (\<lambda>e. AList.update ''erro''
                    (PyStr (''Erro ao obter informacoes do sistema: '' @ str e)))
      in case platform_rest m of
           Inl e \<Rightarrow> (Inr (erro e []), s)
         | Inr pf \<Rightarrow>
             (let sys_info =
                    [(''sistema'', PyStr (platform_system m)),
                     (''versao'', PyStr (pf_version pf)),
                     (''release'', PyStr (pf_release pf)),
                     (''arquitetura'', PyStr (pf_architecture pf)),
                     (''processador'', PyStr (pf_processor pf)),
                     (''maquina'', PyStr (pf_machine pf)),
                     (''no_computador'', PyStr (pf_node pf))]
              in case system_psutil_block m sys_info of
                   Inl e \<Rightarrow> (Inr (erro e sys_info), s)
                 | Inr sys_info1 \<Rightarrow> (Inr sys_info1, s)))"

fun str_or_None :: "string option \<Rightarrow> pyval" where
  "str_or_None None = PyNone"
| "str_or_None (Some v) = PyStr v"

definition addr_info :: "snicaddr \<Rightarrow> pyval" where
  "addr_info addr = PyDict
     [(''familia'', PyStr (family addr)),
      (''endereco'', str_or_None (address addr)),
      (''mascara'', str_or_None (netmask addr)),
      (''broadcast'', str_or_None (broadcast addr))]"

definition interface_info ::
  "(string \<times> snicstats) list \<Rightarrow> string \<times> snicaddr list \<Rightarrow> pyval" where
  "interface_info stats item =
     (case item of (interface_name, addresses) \<Rightarrow>
        (let info =
               [(''nome'', PyStr interface_name),
                (''ativo'',
                   case map_of stats interface_name of
                     None \<Rightarrow> PyBool False | Some stat \<Rightarrow> PyBool (isup stat)),
                (''enderecos'', PyList (map addr_info addresses))]
         in case map_of stats interface_name of
              None \<Rightarrow> PyDict info
            | Some stat \<Rightarrow>
                PyDict (dict_update info
                  [(''velocidade'',
                      if speed stat > 0 then PyFmt 0 (of_int (speed stat)) '' Mbps''
                      else PyStr ''N/A''),
                   (''mtu'', PyInt (mtu stat))])))"

definition estatisticas :: "snetio \<Rightarrow> pyval" where
  "estatisticas net_io = PyDict
     [(''bytes_enviados'', fstring 2 (of_nat (bytes_sent net_io) / 1024 ^ 2) '' MB''),
      (''bytes_recebidos'', fstring 2 (of_nat (bytes_recv net_io) / 1024 ^ 2) '' MB''),
      (''pacotes_enviados'', PyInt (int (packets_sent net_io))),
      (''pacotes_recebidos'', PyInt (int (packets_recv net_io))),
      (''erros_entrada'', PyInt (int (errin net_io))),
      (''erros_saida'', PyInt (int (errout net_io)))]"

definition get_network_info :: "machine \<Rightarrow> engine \<Rightarrow> (exn + dict) \<times> engine" where
  "get_network_info m s =
     (let network_info = [(''interfaces'', PyList []), (''erro'', PyNone)];
          erro = (\<lambda>e. AList.update ''erro''
                    (PyStr (''Erro ao obter informacoes de rede: '' @ str e)))
      in if has_psutil m then
           (case net_if_addrs m of
              Inl e \<Rightarrow> (Inr (erro e network_info), s)
            | Inr interfaces \<Rightarrow>
                (case net_if_stats m of
                   Inl e \<Rightarrow> (Inr (erro e network_info), s)
                 | Inr stats \<Rightarrow>
                     (let network_info1 =
                            [(''interfaces'', PyList (map (interface_info stats) interfaces)),
                             (''erro'', PyNone)]
                      in case net_io_counters m of
                           Inl e \<Rightarrow> (Inr (erro e network_info1), s)
                         | Inr None \<Rightarrow> (Inr network_info1, s)
                         | Inr (Some net_io) \<Rightarrow>
                             (Inr (AList.update ''estatisticas'' (estatisticas net_io)
                                network_info1), s))))
         else (Inr network_info, s))"


section \<open>The full diagnostic\<close>

subsection \<open>\<open>analyze_health_and_recommendations\<close>\<close>

definition analyze_cpu :: "machine \<Rightarrow> engine \<Rightarrow> (exn + unit) \<times> engine" where
  "analyze_cpu m s =
     (case get_cpu_info m s of
        (Inl e, s') \<Rightarrow> (Inl e, s')
      | (Inr cpu_info, s') \<Rightarrow>
          (case map_of cpu_info ''uso_atual'' of
             None \<Rightarrow> (Inr (), s')
           | Some v \<Rightarrow>
               (case float_without_percent v of
                  Inl e \<Rightarrow> (Inl e, s')
                | Inr cpu_usage' \<Rightarrow>
                    (Inr (),
                     if cpu_usage' > 80 then
                       append_recommendation
                         \<lparr>componente = CPU, prioridade = ALTA, categoria = Performance,
                          problema = Uso_alto_de_CPU (fmtf 1 cpu_usage'),
                          recomendacao = ''Feche programas desnecessarios, verifique processos em segundo plano, considere upgrade do processador''\<rparr> s'
                     else s'))))"

definition analyze_gpu :: "machine \<Rightarrow> engine \<Rightarrow> (exn + unit) \<times> engine" where
  "analyze_gpu m s =
     (case get_gpu_info m s of
        (Inl e, s') \<Rightarrow> (Inl e, s')
      | (Inr gpu_info, s') \<Rightarrow>
          (case map_of gpu_info ''uso_gpu'' of
             None \<Rightarrow> (Inr (), s')
           | Some v \<Rightarrow>
               (case float_without_percent v of
                  Inl e \<Rightarrow> (Inl e, s')
                | Inr gpu_usage' \<Rightarrow>
                    (Inr (),
                     if gpu_usage' > 90 then
                       append_recommendation
                         \<lparr>componente = GPU, prioridade = MEDIA, categoria = Performance,
                          problema = Uso_alto_de_GPU (fmtf 1 gpu_usage'),
                          recomendacao = ''Reduza configuracoes graficas em jogos/aplicacoes, verifique drivers atualizados''\<rparr> s'
                     else s'))))"

definition analyze_memory :: "machine \<Rightarrow> engine \<Rightarrow> (exn + unit) \<times> engine" where
  "analyze_memory m s =
     (case get_memory_info m s of
        (Inl e, s') \<Rightarrow> (Inl e, s')
      | (Inr memory_info, s') \<Rightarrow>
          (case map_of memory_info ''porcentagem_uso'' of
             None \<Rightarrow> (Inr (), s')
           | Some v \<Rightarrow>
               (case float_without_percent v of
                  Inl e \<Rightarrow> (Inl e, s')
                | Inr mem_usage \<Rightarrow>
                    (Inr (),
                     if mem_usage > 85 then
                       append_recommendation
                         \<lparr>componente = RAM, prioridade = ALTA, categoria = Hardware,
                          problema = Uso_alto_de_memoria_RAM (fmtf 1 mem_usage),
                          recomendacao = ''Considere adicionar mais RAM, feche aplicacoes nao utilizadas, verifique vazamentos de memoria''\<rparr> s'
                     else s'))))"

text \<open>\<open>device["dispositivo"]\<close> inside the f-string of the problem.\<close>

definition device_name :: "dict \<Rightarrow> exn + string" where
  "device_name device_info =
     (case map_of device_info ''dispositivo'' of
        Some (PyStr name) \<Rightarrow> Inr name
      | Some v \<Rightarrow> Inr []
      | None \<Rightarrow> Inl (Exn OtherException ''dispositivo''))"

definition storage_recommendation :: "dict \<Rightarrow> rat \<Rightarrow> engine \<Rightarrow> (exn + unit) \<times> engine" where
  "storage_recommendation device_info storage_usage s =
     (if storage_usage > 90 then
        (case device_name device_info of
           Inl e \<Rightarrow> (Inl e, s)
         | Inr name \<Rightarrow>
             (Inr (), append_recommendation
                \<lparr>componente = DISCO, prioridade = CRITICA, categoria = Armazenamento,
                 problema = Espaco_critico name (fmtf 1 storage_usage),
                 recomendacao = ''Libere espaco urgentemente, mova arquivos para disco externo, execute limpeza de disco''\<rparr> s))
      else if storage_usage > 80 then
        (case device_name device_info of
           Inl e \<Rightarrow> (Inl e, s)
         | Inr name \<Rightarrow>
             (Inr (), append_recommendation
                \<lparr>componente = DISCO, prioridade = MEDIA, categoria = Armazenamento,
                 problema = Espaco_baixo name (fmtf 1 storage_usage),
                 recomendacao = ''Execute limpeza de arquivos temporarios, desinstale programas nao utilizados''\<rparr> s))
      else (Inr (), s))"

fun analyze_devices :: "pyval list \<Rightarrow> engine \<Rightarrow> (exn + unit) \<times> engine" where
  "analyze_devices [] s = (Inr (), s)"
| "analyze_devices (PyDict device_info # rest) s =
     (case map_of device_info ''porcentagem_uso'' of
        None \<Rightarrow> analyze_devices rest s
      | Some v \<Rightarrow>
          (case float_without_percent v of
             Inl e \<Rightarrow> (Inl e, s)
           | Inr storage_usage \<Rightarrow>
               (case storage_recommendation device_info storage_usage s of
                  (Inl e, s') \<Rightarrow> (Inl e, s')
                | (Inr u, s') \<Rightarrow> analyze_devices rest s')))"
| "analyze_devices (v # rest) s =
     (Inl (Exn OtherException ''argument is not iterable''), s)"

text \<open>\<open>storage_info.get("dispositivos", [])\<close>\<close>

definition get_dispositivos :: "dict \<Rightarrow> exn + pyval list" where
  "get_dispositivos storage_info =
     (case map_of storage_info ''dispositivos'' of
        None \<Rightarrow> Inr []
      | Some (PyList devices) \<Rightarrow> Inr devices
      | Some v \<Rightarrow> Inl (Exn OtherException ''object is not iterable''))"

definition analyze_storage :: "machine \<Rightarrow> engine \<Rightarrow> (exn + unit) \<times> engine" where
  "analyze_storage m s =
     (case get_storage_info m s of
        (Inl e, s') \<Rightarrow> (Inl e, s')
      | (Inr storage_info, s') \<Rightarrow>
          (case get_dispositivos storage_info of
             Inl e \<Rightarrow> (Inl e, s')
           | Inr devices \<Rightarrow> analyze_devices devices s'))"

definition static_recommendations :: "engine \<Rightarrow> engine" where
  "static_recommendations s =
     append_recommendation
       \<lparr>componente = SISTEMA, prioridade = MEDIA, categoria = Seguranca,
        problema = Seguranca_do_sistema,
        recomendacao = ''Mantenha o sistema operacional atualizado, use antivirus atualizado, ative o firewall do Windows''\<rparr>
       (append_recommendation
          \<lparr>componente = GERAL, prioridade = BAIXA, categoria = Manutencao,
           problema = Manutencao_preventiva,
           recomendacao = ''Execute limpeza fisica do PC a cada 6 meses, atualize drivers regularmente, faca backup dos dados importantes''\<rparr> s)"

text \<open>The body of the \<open>try\<close>, which stops at the first exception.\<close>

definition analyze_body :: "machine \<Rightarrow> engine \<Rightarrow> (exn + unit) \<times> engine" where
  "analyze_body m s =
     (case analyze_cpu m s of
        (Inl e, s1) \<Rightarrow> (Inl e, s1)
      | (Inr u, s1) \<Rightarrow>
     (case analyze_gpu m s1 of
        (Inl e, s2) \<Rightarrow> (Inl e, s2)
      | (Inr u, s2) \<Rightarrow>
     (case analyze_memory m s2 of
        (Inl e, s3) \<Rightarrow> (Inl e, s3)
      | (Inr u, s3) \<Rightarrow>
     (case analyze_storage m s3 of
        (Inl e, s4) \<Rightarrow> (Inl e, s4)
      | (Inr u, s4) \<Rightarrow> (Inr (), static_recommendations s4)))))"

definition analyze_health_and_recommendations ::
  "machine \<Rightarrow> engine \<Rightarrow> (exn + unit) \<times> engine" where
  "analyze_health_and_recommendations m s =
     (case analyze_body m (s\<lparr>recommendations := []\<rparr>) of
        (Inl e, s') \<Rightarrow>
          (Inr (), append_recommendation
             \<lparr>componente = DIAGNOSTICO, prioridade = BAIXA, categoria = Sistema,
              problema = Erro_na_analise,
              recomendacao = ''Erro durante analise de saude: '' @ str e\<rparr> s')
      | (Inr u, s') \<Rightarrow> (Inr (), s'))"

subsection \<open>\<open>run_complete_diagnosis\<close>\<close>

text \<open>
  The thread of \<open>run_complete_diagnosis\<close>. It reads the machine twice: \<open>m1\<close> is the
  machine while the seven queries of the report run, \<open>m2\<close> the machine while
  \<open>analyze_health_and_recommendations\<close> runs its four. The text of the report, which
  is put together from the returned dictionaries and shown in a widget, is not part of
  the state and is left out; an exception that reaches the thread's \<open>except\<close> ends the
  run with the state it has.
\<close>

definition diagnosis_thread :: "machine \<Rightarrow> machine \<Rightarrow> engine \<Rightarrow> engine" where
  "diagnosis_thread m1 m2 s =
     (case get_cpu_info m1 (s\<lparr>alerts := [], recommendations := []\<rparr>) of
        (Inl e, s1) \<Rightarrow> s1
      | (Inr cpu_info, s1) \<Rightarrow>
     (case get_gpu_info m1 s1 of
        (Inl e, s2) \<Rightarrow> s2
      | (Inr gpu_info, s2) \<Rightarrow>
     (case get_memory_info m1 s2 of
        (Inl e, s3) \<Rightarrow> s3
      | (Inr memory_info, s3) \<Rightarrow>
     (case get_storage_info m1 s3 of
        (Inl e, s4) \<Rightarrow> s4
      | (Inr storage_info, s4) \<Rightarrow>
     (case get_motherboard_info m1 s4 of
        (Inl e, s5) \<Rightarrow> s5
      | (Inr mb_info, s5) \<Rightarrow>
     (case get_system_info m1 s5 of
        (Inl e, s6) \<Rightarrow> s6
      | (Inr sys_info, s6) \<Rightarrow>
     (case get_network_info m1 s6 of
        (Inl e, s7) \<Rightarrow> s7
      | (Inr network_info, s7) \<Rightarrow>
          snd (analyze_health_and_recommendations m2 s7))))))))"


section \<open>The monitoring session\<close>

text \<open>
  One turn of the loop of \<open>monitoring_thread\<close> as the thread sees it: \<open>clock\<close> is
  what \<open>time.time()\<close> returns in the loop condition, \<open>current_time\<close> what
  \<open>datetime.datetime.now()\<close> returns, \<open>probe\<close> what the libraries answer during
  the turn, and \<open>stop_request\<close> tells whether \<open>stop_monitoring\<close> is called from the
  window while the turn runs.
\<close>

record tick =
  clock :: rat
  current_time :: rat
  probe :: machine
  stop_request :: bool

definition get_cpu_temperature :: "machine \<Rightarrow> engine \<Rightarrow> (exn + rat option) \<times> engine" where
  "get_cpu_temperature m s =
     (if has_psutil m then
        (case sensors_temperatures m of
           Inl e \<Rightarrow> (Inr None, s)
         | Inr sensors \<Rightarrow> (Inr (first_cpu_sensor sensors), s))
      else (Inr None, s))"

definition update_data :: "(monitoring_data_t \<Rightarrow> monitoring_data_t) \<Rightarrow> engine \<Rightarrow> engine" where
  "update_data f s = s\<lparr>monitoring_data := f (monitoring_data s)\<rparr>"

definition append_log :: "log_line \<Rightarrow> engine \<Rightarrow> engine" where
  "append_log l s = s\<lparr>monitoring_log := monitoring_log s @ [l]\<rparr>"

text \<open>
  The psutil part of a turn. \<open>if cpu_temp:\<close> appends a temperature only when one was
  read and is not zero.
\<close>

definition tick_psutil_block :: "machine \<Rightarrow> engine \<Rightarrow> (exn + unit) \<times> engine" where
  "tick_psutil_block m s =
     (if has_psutil m then
        (case cpu_percent m of
           Inl e \<Rightarrow> (Inl e, s)
         | Inr percent \<Rightarrow>
             (let s1 = update_data (\<lambda>d. d\<lparr>cpu_usage := cpu_usage d @ [percent]\<rparr>) s in
              case get_cpu_temperature m s1 of
                (Inl e, s2) \<Rightarrow> (Inl e, s2)
              | (Inr temp, s2) \<Rightarrow>
                  (let s3 = (case temp of
                               None \<Rightarrow> s2
                             | Some t \<Rightarrow>
                                 if t \<noteq> 0 then
                                   update_data (\<lambda>d. d\<lparr>cpu_temp := cpu_temp d @ [t]\<rparr>) s2
                                 else s2)
                   in case virtual_memory m of
                        Inl e \<Rightarrow> (Inl e, s3)
                      | Inr memory \<Rightarrow>
                          (Inr (), update_data
                             (\<lambda>d. d\<lparr>memory_usage := memory_usage d @ [vm_percent memory]\<rparr>)
                             s3))))
      else (Inr (), s))"

text \<open>The GPUtil part, inside its own \<open>try\<close> with a bare \<open>except\<close>.\<close>

definition tick_gpu_block :: "machine \<Rightarrow> engine \<Rightarrow> engine" where
  "tick_gpu_block m s =
     (if has_GPUtil m then
        (case getGPUs m of
           Inl e \<Rightarrow> s
         | Inr [] \<Rightarrow> s
         | Inr (g # others) \<Rightarrow>
             update_data (\<lambda>d. d\<lparr>gpu_usage := gpu_usage d @ [load g * 100],
                                  gpu_temp := gpu_temp d @ [temperature g]\<rparr>) s)
      else s)"

text \<open>
  The lines for the log. \<open>cpu_percent\<close> is a local variable that only the psutil
  part assigns, in this turn when the turn gets here, so reading it without psutil
  raises \<open>UnboundLocalError\<close>.
\<close>

definition tick_log_block :: "tick \<Rightarrow> engine \<Rightarrow> (exn + unit) \<times> engine" where
  "tick_log_block t s =
     (case (if has_psutil (probe t) then cpu_percent (probe t)
            else Inl (Exn UnboundLocalError ''cpu_percent'')) of
        Inl e \<Rightarrow> (Inl e, s)
      | Inr percent \<Rightarrow>
          (let s1 = (if percent > 80 then append_log (CPU_alta (current_time t) (fmtf 1 percent)) s
                     else s)
           in if has_psutil (probe t) then
                (case virtual_memory (probe t) of
                   Inl e \<Rightarrow> (Inl e, s1)
                 | Inr memory \<Rightarrow>
                     (Inr (),
                      if vm_percent memory > 85 then
                        append_log (RAM_alta (current_time t) (fmtf 1 (vm_percent memory))) s1
                      else s1))
              else (Inr (), s1)))"

definition tick_body :: "tick \<Rightarrow> engine \<Rightarrow> (exn + unit) \<times> engine" where
  "tick_body t s =
     (let s1 = update_data (\<lambda>d. d\<lparr>timestamps := timestamps d @ [current_time t]\<rparr>) s in
      case tick_psutil_block (probe t) s1 of
        (Inl e, s2) \<Rightarrow> (Inl e, s2)
      | (Inr u, s2) \<Rightarrow> tick_log_block t (tick_gpu_block (probe t) s2))"

text \<open>One turn: the body, and the \<open>except\<close> that logs the error and goes on.\<close>

definition monitoring_tick :: "tick \<Rightarrow> engine \<Rightarrow> engine" where
  "monitoring_tick t s =
     (case tick_body t s of
        (Inl e, s') \<Rightarrow> append_log (Erro (str e)) s'
      | (Inr u, s') \<Rightarrow> s')"

definition stop_monitoring :: "engine \<Rightarrow> engine" where
  "stop_monitoring s = s\<lparr>monitoring := False\<rparr>"

definition gui_during_tick :: "tick \<Rightarrow> engine \<Rightarrow> engine" where
  "gui_during_tick t s = (if stop_request t then stop_monitoring s else s)"

text \<open>
  \<open>while self.monitoring and time.time() < end_time\<close>. The list holds the turns
  that the world supplies; the loop asks for the clock only when the flag is set,
  and the result is \<open>None\<close> when it asks and the list is used up.
\<close>

fun monitoring_loop :: "rat \<Rightarrow> tick list \<Rightarrow> engine \<Rightarrow> engine option" where
  "monitoring_loop end_time [] s = (if monitoring s then None else Some s)"
| "monitoring_loop end_time (t # ticks) s =
     (if monitoring s \<and> clock t < end_time then
        monitoring_loop end_time ticks (gui_during_tick t (monitoring_tick t s))
      else Some s)"

text \<open>\<open>sum(xs) / len(xs)\<close> and \<open>max(xs)\<close> on a list that is not empty.\<close>

definition average :: "rat list \<Rightarrow> rat" where
  "average xs = sum_list xs / of_nat (length xs)"

fun maximum :: "rat list \<Rightarrow> rat" where
  "maximum [] = 0"
| "maximum (x # xs) = fold max xs x"

definition stats_line :: "string \<Rightarrow> rat list \<Rightarrow> log_line list" where
  "stats_line label xs =
     (if xs \<noteq> [] then [Media_Maximo label (fmtf 1 (average xs)) (fmtf 1 (maximum xs))]
      else [])"

definition finish_monitoring :: "engine \<Rightarrow> engine" where
  "finish_monitoring s =
     (let end_msg =
            [Monitoramento_finalizado,
             Dados_coletados (length (timestamps (monitoring_data s)))]
            @ stats_line ''CPU'' (cpu_usage (monitoring_data s))
            @ stats_line ''RAM'' (memory_usage (monitoring_data s))
      in s\<lparr>monitoring := False, monitoring_log := monitoring_log s @ end_msg\<rparr>)"

text \<open>
  The lines that \<open>generate_complete_report\<close> adds for the monitoring data, after
  the text of the last diagnostic.
\<close>

definition generate_complete_report :: "engine \<Rightarrow> log_line list" where
  "generate_complete_report s =
     (if timestamps (monitoring_data s) \<noteq> [] then
        [Periodo (length (timestamps (monitoring_data s)))]
        @ stats_line ''CPU'' (cpu_usage (monitoring_data s))
        @ stats_line ''RAM'' (memory_usage (monitoring_data s))
        @ stats_line ''GPU'' (gpu_usage (monitoring_data s))
      else [])"

text \<open>
  \<open>start_monitoring\<close> up to the start of the thread: \<open>duration_var\<close> is what
  \<open>int(self.duration_var.get())\<close> does. It returns the minutes for the thread.
\<close>

definition start_monitoring :: "exn + int \<Rightarrow> engine \<Rightarrow> (exn + int) \<times> engine" where
  "start_monitoring duration_var s =
     (let s1 = s\<lparr>monitoring := True,
                 monitoring_data := \<lparr>cpu_usage = [], gpu_usage = [], memory_usage = [],
                   cpu_temp = [], gpu_temp = [], timestamps = []\<rparr>\<rparr>
      in case duration_var of
           Inl e \<Rightarrow> (Inl e, s1)
         | Inr duration_minutes \<Rightarrow>
             (Inr duration_minutes,
              s1\<lparr>monitoring_log := [Monitoramento_iniciado duration_minutes, Inicio]\<rparr>))"

text \<open>The thread: the loop from \<open>start_time\<close>, then \<open>finish_monitoring\<close>.\<close>

definition monitoring_thread :: "int \<Rightarrow> rat \<Rightarrow> tick list \<Rightarrow> engine \<Rightarrow> engine option" where
  "monitoring_thread duration_minutes start_time ticks s =
     map_option finish_monitoring
       (monitoring_loop (start_time + of_int (duration_minutes * 60)) ticks s)"

text \<open>A session: the click that starts it and the thread it starts.\<close>

definition monitoring_session ::
  "exn + int \<Rightarrow> rat \<Rightarrow> tick list \<Rightarrow> engine \<Rightarrow> engine option" where
  "monitoring_session duration_var start_time ticks s =
     (case start_monitoring duration_var s of
        (Inl e, s') \<Rightarrow> Some s'
      | (Inr duration_minutes, s') \<Rightarrow> monitoring_thread duration_minutes start_time ticks s')"


text \<open>
  \<open>toggle_monitoring\<close>, the command of the button: it starts a session when none
  runs (the result is then the minutes for the thread) and asks the running one to
  stop otherwise.
\<close>

definition toggle_monitoring :: "exn + int \<Rightarrow> engine \<Rightarrow> (exn + int option) \<times> engine" where
  "toggle_monitoring duration_var s =
     (if \<not> monitoring s then
        (case start_monitoring duration_var s of
           (Inl e, s') \<Rightarrow> (Inl e, s')
         | (Inr duration_minutes, s') \<Rightarrow> (Inr (Some duration_minutes), s'))
      else (Inr None, stop_monitoring s))"

section \<open>Notions for the statements\<close>

text \<open>The alerts that a query appends when it runs on the state of \<open>__init__\<close>.\<close>

definition emitted ::
  "(machine \<Rightarrow> engine \<Rightarrow> (exn + dict) \<times> engine) \<Rightarrow> machine \<Rightarrow> alert list" where
  "emitted q m = alerts (snd (q m init))"

text \<open>What a query returns, and the recommendations that a step of the analysis
  appends, on the state of \<open>__init__\<close>.\<close>

definition returned ::
  "(machine \<Rightarrow> engine \<Rightarrow> (exn + dict) \<times> engine) \<Rightarrow> machine \<Rightarrow> exn + dict" where
  "returned q m = fst (q m init)"

definition advised ::
  "(machine \<Rightarrow> engine \<Rightarrow> (exn + unit) \<times> engine) \<Rightarrow> machine \<Rightarrow> recommendation list" where
  "advised a m = recommendations (snd (a m init))"




text \<open>
  A machine to run the program on: a Linux PC with psutil and nothing else, a CPU
  sensor at 60 degrees, half of the memory and of the only partition in use, no swap.
\<close>

definition no_answer :: exn where
  "no_answer = Exn OtherException ''not available''"

definition linux_pc :: machine where
  "linux_pc = \<lparr>has_psutil = True, has_cpuinfo = False, has_GPUtil = False, has_wmi = False,
     platform_system = ''Linux'',
     platform_rest = Inr \<lparr>pf_version = ''1'', pf_release = ''6.1'', pf_architecture = ''64bit'',
       pf_processor = ''x86_64'', pf_machine = ''x86_64'', pf_node = ''pc''\<rparr>,
     cpu_percent = Inr 10, cpu_count_physical = Inr (Some 4), cpu_count_logical = Inr (Some 8),
     cpu_freq = Inr None,
     sensors_temperatures = Inr [(''acpitz'', [40]), (''coretemp'', [60, 58])],
     virtual_memory = Inr \<lparr>vm_total = 1000, vm_available = 500, vm_used = 500, vm_percent = 50,
       vm_free = 500, vm_cached = None, vm_buffers = None\<rparr>,
     swap_memory = Inr \<lparr>sw_total = 0, sw_used = 0, sw_percent = 0\<rparr>,
     disk_partitions = Inr [\<lparr>device = ''/dev/sda1'', mountpoint = ''/'', fstype = ''ext4'',
       disk_usage = Inr \<lparr>du_total = 100, du_used = 50, du_free = 50\<rparr>\<rparr>],
     disk_io_counters = Inr None, boot_time = Inr 0, users = Inr 1,
     net_if_addrs = Inr [], net_if_stats = Inr [], net_io_counters = Inr None,
     cpuinfo_get_cpu_info = Inl no_answer, getGPUs = Inl no_answer, wmi_WMI = Inl no_answer,
     Win32_PhysicalMemory = Inl no_answer, Win32_DiskDrive = Inl no_answer,
     Win32_BaseBoard = Inl no_answer, Win32_BIOS = Inl no_answer,
     Win32_Processor = Inl no_answer, now = 100, disk_temperature = None\<rparr>"

definition with_cpu_temperature :: "rat \<Rightarrow> machine \<Rightarrow> machine" where
  "with_cpu_temperature t m = m\<lparr>sensors_temperatures := Inr [(''coretemp'', [t])]\<rparr>"

definition with_cpu_percent :: "rat \<Rightarrow> machine \<Rightarrow> machine" where
  "with_cpu_percent p m = m\<lparr>cpu_percent := Inr p\<rparr>"

text \<open>The same machine with no sensor of the CPU, and with a GPU under a given load.\<close>

definition no_cpu_sensor :: "machine \<Rightarrow> machine" where
  "no_cpu_sensor m = m\<lparr>sensors_temperatures := Inr [(''acpitz'', [40])]\<rparr>"

definition with_gpu_load :: "rat \<Rightarrow> machine \<Rightarrow> machine" where
  "with_gpu_load l m = m\<lparr>has_GPUtil := True,
     getGPUs := Inr [\<lparr>gpu_name = ''GPU 0'', memoryTotal = 8192, memoryUsed = 1024,
       memoryFree = 7168, load = l, temperature = 55, uuid = ''GPU-0'', driver = None\<rparr>]\<rparr>"

text \<open>A turn of the loop at time \<open>t\<close>, without and with a click on the stop button.\<close>

definition quiet_tick :: "rat \<Rightarrow> machine \<Rightarrow> tick" where
  "quiet_tick t m = \<lparr>clock = t, current_time = t, probe = m, stop_request = False\<rparr>"

definition stop_tick :: "rat \<Rightarrow> machine \<Rightarrow> tick" where
  "stop_tick t m = \<lparr>clock = t, current_time = t, probe = m, stop_request = True\<rparr>"

text \<open>\<open>(usage.used / usage.total) * 100\<close>, the percentage of a partition in use.\<close>

definition usage_percent :: "sdiskusage \<Rightarrow> rat" where
  "usage_percent usage = of_nat (du_used usage) / of_nat (du_total usage) * 100"

text \<open>The same machine with other readings of the memory, the swap file, the
  partition and the GPU (its temperature and the memory in use, of 100 MB), and with a
  disk at a given temperature.\<close>

definition with_memory_percent :: "rat \<Rightarrow> machine \<Rightarrow> machine" where
  "with_memory_percent p m = m\<lparr>virtual_memory :=
     Inr \<lparr>vm_total = 1000, vm_available = 500, vm_used = 500, vm_percent = p,
       vm_free = 500, vm_cached = None, vm_buffers = None\<rparr>\<rparr>"

definition with_disk_temperature :: "rat \<Rightarrow> machine \<Rightarrow> machine" where
  "with_disk_temperature t m = m\<lparr>disk_temperature := Some t\<rparr>"

definition with_disk_usage :: "nat \<Rightarrow> nat \<Rightarrow> machine \<Rightarrow> machine" where
  "with_disk_usage used capacity m = m\<lparr>disk_partitions :=
     Inr [\<lparr>device = ''/dev/sda1'', mountpoint = ''/'', fstype = ''ext4'',
           disk_usage = Inr \<lparr>du_total = capacity, du_used = used, du_free = capacity - used\<rparr>\<rparr>]\<rparr>"

definition with_swap_percent :: "rat \<Rightarrow> machine \<Rightarrow> machine" where
  "with_swap_percent p m = m\<lparr>swap_memory :=
     Inr \<lparr>sw_total = 1000, sw_used = 500, sw_percent = p\<rparr>\<rparr>"

definition with_gpu :: "rat \<Rightarrow> rat \<Rightarrow> machine \<Rightarrow> machine" where
  "with_gpu temp used m = m\<lparr>has_GPUtil := True,
     getGPUs := Inr [\<lparr>gpu_name = ''GPU 0'', memoryTotal = 100, memoryUsed = used,
       memoryFree = 100 - used, load = 1 / 2, temperature = temp, uuid = ''GPU-0'',
       driver = None\<rparr>]\<rparr>"

text \<open>A cool disk that is nearly full, a machine where psutil was not imported,
  and one whose only partition may not be read.\<close>

definition full_disk_pc :: machine where
  "full_disk_pc = with_disk_temperature 30 (with_disk_usage 96 100 linux_pc)"




text \<open>A state of the engine in which every list holds something.\<close>

definition busy_engine :: engine where
  "busy_engine = \<lparr>monitoring = True,
     monitoring_data = \<lparr>cpu_usage = [10], gpu_usage = [], memory_usage = [50], cpu_temp = [60],
       gpu_temp = [], timestamps = [0]\<rparr>,
     alerts = [\<lparr>componente = SWAP, prioridade = BAIXA, tipo = AVISO,
                mensagem = Uso_alto_de_arquivo_de_troca 70\<rparr>],
     recommendations = [\<lparr>componente = GERAL, prioridade = BAIXA, categoria = Manutencao,
                problema = Manutencao_preventiva, recomendacao = ''Faca backup''\<rparr>],
     monitoring_log = [Monitoramento_iniciado 5]\<rparr>"

text \<open>A device of \<open>storage_info\<close> as the analysis needs it: a dictionary with a
  name and a percentage.\<close>

fun device_ok :: "pyval \<Rightarrow> bool" where
  "device_ok (PyDict d) =
     ((case map_of d ''porcentagem_uso'' of Some (PyFmt k x t) \<Rightarrow> t = ''%'' | _ \<Rightarrow> False)
      \<and> (case map_of d ''dispositivo'' of Some (PyStr n) \<Rightarrow> True | _ \<Rightarrow> False))"
| "device_ok v = False"

section \<open>What a query does to the state\<close>

text \<open>
  Each of the four queries that raise alerts leaves the state as it was but for the
  alerts, to which it appends; what it returns and what it appends depend on the
  machine only.
\<close>

lemma get_cpu_info_frame:
  "get_cpu_info m s =
     (returned get_cpu_info m, s\<lparr>alerts := alerts s @ emitted get_cpu_info m\<rparr>)"
  by (simp add: get_cpu_info_def emitted_def returned_def Let_def cpu_temperature_block_def
      cpu_temperature_alert_def append_alert_def init_def
      split: sum.splits option.splits prod.splits)

lemma get_gpu_info_frame:
  "get_gpu_info m s =
     (returned get_gpu_info m, s\<lparr>alerts := alerts s @ emitted get_gpu_info m\<rparr>)"
  by (simp add: get_gpu_info_def emitted_def returned_def Let_def gpu_temperature_alert_def
      gpu_memory_alert_def append_alert_def init_def split: sum.splits list.splits)

lemma get_memory_info_frame:
  "get_memory_info m s =
     (returned get_memory_info m, s\<lparr>alerts := alerts s @ emitted get_memory_info m\<rparr>)"
  by (simp add: get_memory_info_def emitted_def returned_def Let_def swap_block_def memory_alert_def
      swap_alert_def append_alert_def init_def split: sum.splits prod.splits)

lemma disk_space_alert_frame:
  "disk_space_alert dev p s = s\<lparr>alerts := alerts s @ alerts (disk_space_alert dev p init)\<rparr>"
  by (simp add: disk_space_alert_def append_alert_def init_def)

lemma partitions_loop_uniform:
  "\<exists>r d new. \<forall>s. partitions_loop ps ds s = (r, d, s\<lparr>alerts := alerts s @ new\<rparr>)"
proof (induction ps arbitrary: ds)
  case Nil
  have "\<forall>s. partitions_loop [] ds s = (Inr (), ds, s\<lparr>alerts := alerts s @ []\<rparr>)" by simp
  then show ?case by blast
next
  case (Cons p ps)
  show ?case
  proof (cases "disk_usage p")
    case (Inl e)
    show ?thesis
    proof (cases "exn_cls e = PermissionError")
      case True
      from Cons.IH[of ds] obtain r d new
        where h: "\<forall>s. partitions_loop ps ds s = (r, d, s\<lparr>alerts := alerts s @ new\<rparr>)"
        by blast
      have "\<forall>s. partitions_loop (p # ps) ds s = (r, d, s\<lparr>alerts := alerts s @ new\<rparr>)"
        using h Inl True by simp
      then show ?thesis by blast
    next
      case False
      have "\<forall>s. partitions_loop (p # ps) ds s = (Inl e, ds, s\<lparr>alerts := alerts s @ []\<rparr>)"
        using Inl False by simp
      then show ?thesis by blast
    qed
  next
    case (Inr usage)
    show ?thesis
    proof (cases "du_total usage = 0")
      case True
      have "\<forall>s. partitions_loop (p # ps) ds s =
              (Inl (Exn ZeroDivisionError ''division by zero''), ds,
               s\<lparr>alerts := alerts s @ []\<rparr>)"
        using Inr True by simp
      then show ?thesis by blast
    next
      case False
      define pc where "pc = (of_nat (du_used usage) / of_nat (du_total usage) * 100 :: rat)"
      define di where "di = PyDict
                   [(''dispositivo'', PyStr (device p)),
                    (''ponto_montagem'', PyStr (mountpoint p)),
                    (''sistema_arquivos'', PyStr (fstype p)),
                    (''tamanho_total'', fstring 2 (of_nat (du_total usage) / 1024 ^ 3) '' GB''),
                    (''usado'', fstring 2 (of_nat (du_used usage) / 1024 ^ 3) '' GB''),
                    (''livre'', fstring 2 (of_nat (du_free usage) / 1024 ^ 3) '' GB''),
                    (''porcentagem_uso'', fstring 1 pc ''%'')]"
      from Cons.IH[of "ds @ [di]"] obtain r d new
        where h: "\<forall>s. partitions_loop ps (ds @ [di]) s = (r, d, s\<lparr>alerts := alerts s @ new\<rparr>)"
        by blast
      have step: "partitions_loop (p # ps) ds s =
                 partitions_loop ps (ds @ [di]) (disk_space_alert (device p) pc s)" for s
        using Inr False by (simp add: pc_def di_def Let_def)
      have "\<forall>s. partitions_loop (p # ps) ds s =
              (r, d, s\<lparr>alerts := alerts s @ (alerts (disk_space_alert (device p) pc init) @ new)\<rparr>)"
      proof
        fix s
        have "partitions_loop (p # ps) ds s =
                (r, d, (disk_space_alert (device p) pc s)
                   \<lparr>alerts := alerts (disk_space_alert (device p) pc s) @ new\<rparr>)"
          using step h by simp
        also have "\<dots> = (r, d, s\<lparr>alerts := alerts s @
                     (alerts (disk_space_alert (device p) pc init) @ new)\<rparr>)"
          by (subst (1 2) disk_space_alert_frame) simp
        finally show "partitions_loop (p # ps) ds s =
              (r, d, s\<lparr>alerts := alerts s @
                 (alerts (disk_space_alert (device p) pc init) @ new)\<rparr>)" .
      qed
      then show ?thesis by blast
    qed
  qed
qed

lemma get_storage_info_frame:
  "get_storage_info m s =
     (returned get_storage_info m, s\<lparr>alerts := alerts s @ emitted get_storage_info m\<rparr>)"
proof (cases "has_psutil m")
  case False
  then show ?thesis by (simp add: get_storage_info_def emitted_def returned_def init_def)
next
  case True
  show ?thesis
  proof (cases "disk_partitions m")
    case (Inl e)
    then show ?thesis using True by (simp add: get_storage_info_def emitted_def returned_def init_def)
  next
    case (Inr ps)
    obtain r d new
      where h: "\<forall>s. partitions_loop ps [] s = (r, d, s\<lparr>alerts := alerts s @ new\<rparr>)"
      using partitions_loop_uniform by blast
    show ?thesis
      using True Inr h
      by (cases r) (simp_all add: get_storage_info_def emitted_def returned_def Let_def init_def)
  qed
qed

lemma get_motherboard_info_frame:
  "get_motherboard_info m s = (returned get_motherboard_info m, s)"
  by (simp add: get_motherboard_info_def returned_def Let_def split: sum.splits)

lemma get_system_info_frame:
  "get_system_info m s = (returned get_system_info m, s)"
  by (simp add: get_system_info_def returned_def Let_def split: sum.splits)

lemma get_network_info_frame:
  "get_network_info m s = (returned get_network_info m, s)"
  by (simp add: get_network_info_def returned_def Let_def split: sum.splits option.splits)

text \<open>
  C5 as the specification states it fails: on a machine whose CPU sensor reads 86
  degrees, \<open>get_cpu_info\<close> called with no alerts leaves one.
\<close>

theorem get_cpu_info_changes_alerts:
  "alerts (snd (get_cpu_info (with_cpu_temperature 86 linux_pc) init)) =
     [\<lparr>componente = CPU, prioridade = ALTA, tipo = CRITICO,
       mensagem = Temperatura_critica 86 85\<rparr>]
   \<and> alerts init = []"
  by (simp add: get_cpu_info_def with_cpu_temperature_def linux_pc_def init_def
      cpu_psutil_block_def cpu_cpuinfo_block_def cpu_temperature_block_def
      cpu_temperature_alert_def append_alert_def temp_limits_def contains_def lower_def
      lower_char_def fmtf_def round_half_even_def Let_def)


section \<open>The shape of what the queries return\<close>

lemma partitions_loop_devices:
  "list_all device_ok ds \<Longrightarrow> list_all device_ok (fst (snd (partitions_loop ps ds s)))"
proof (induction ps arbitrary: ds s)
  case Nil
  then show ?case by simp
next
  case (Cons p ps)
  show ?case
  proof (cases "disk_usage p")
    case (Inl e)
    then show ?thesis using Cons by simp
  next
    case (Inr usage)
    show ?thesis
    proof (cases "du_total usage = 0")
      case True
      then show ?thesis using Inr Cons.prems by simp
    next
      case False
      show ?thesis
        using Inr False Cons.prems
        by (simp add: Let_def fstring_def Cons.IH)
    qed
  qed
qed

lemma set_smart_devices: "list_all device_ok ds \<Longrightarrow> list_all device_ok (set_smart v ds)"
proof (cases ds)
  case Nil
  then show ?thesis by simp
next
  case (Cons d rest)
  assume ok: "list_all device_ok ds"
  then have "device_ok d" using Cons by simp
  then obtain dd where dd: "d = PyDict dd" by (cases d) simp_all
  show ?thesis using ok Cons dd by (simp add: update_conv' split: option.splits pyval.splits)
qed

lemma storage_wmi_block_devices:
  "list_all device_ok ds \<Longrightarrow> list_all device_ok (storage_wmi_block m ds)"
  by (simp add: storage_wmi_block_def set_smart_devices split: sum.splits list.splits)

lemma storage_dispositivos:
  assumes "returned get_storage_info m = Inr d"
  shows "\<exists>devs. get_dispositivos d = Inr devs \<and> list_all device_ok devs"
proof (cases "has_psutil m")
  case False
  then show ?thesis using assms
    by (auto simp: returned_def get_storage_info_def get_dispositivos_def)
next
  case True
  show ?thesis
  proof (cases "disk_partitions m")
    case (Inl e)
    then show ?thesis using assms True
      by (auto simp: returned_def get_storage_info_def get_dispositivos_def update_conv')
  next
    case (Inr ps)
    obtain r devs s' where l: "partitions_loop ps [] init = (r, devs, s')"
      by (cases "partitions_loop ps [] init") auto
    have ok: "list_all device_ok devs"
      using partitions_loop_devices[of "[]" ps init] l by simp
    show ?thesis
      using assms True Inr l ok storage_wmi_block_devices[OF ok, of m]
      by (cases r)
         (auto simp: returned_def get_storage_info_def get_dispositivos_def update_conv'
            storage_io_block_def split: sum.splits option.splits)
  qed
qed

lemma storage_never_raises: "\<exists>d. returned get_storage_info m = Inr d"
  by (simp add: returned_def get_storage_info_def Let_def split: sum.splits prod.splits)

lemma storage_recommendation_uniform:
  assumes "device_ok (PyDict dev)"
  shows "\<exists>recs. \<forall>s. storage_recommendation dev x s =
           (Inr (), s\<lparr>recommendations := recommendations s @ recs\<rparr>)"
proof -
  obtain n where n: "device_name dev = Inr n"
    using assms by (auto simp: device_name_def split: option.splits pyval.splits)
  show ?thesis
  proof (cases "x > 90")
    case True
    have "\<forall>s. storage_recommendation dev x s =
           (Inr (), s\<lparr>recommendations := recommendations s @ recommendations (snd (storage_recommendation dev x init))\<rparr>)"
      using n True by (simp add: storage_recommendation_def append_recommendation_def init_def)
    then show ?thesis by blast
  next
    case False
    have "\<forall>s. storage_recommendation dev x s =
           (Inr (), s\<lparr>recommendations := recommendations s @ recommendations (snd (storage_recommendation dev x init))\<rparr>)"
      using n False by (simp add: storage_recommendation_def append_recommendation_def init_def)
    then show ?thesis by blast
  qed
qed

lemma analyze_devices_uniform:
  "list_all device_ok devs \<Longrightarrow>
   \<exists>recs. \<forall>s. analyze_devices devs s = (Inr (), s\<lparr>recommendations := recommendations s @ recs\<rparr>)"
proof (induction devs)
  case Nil
  have "\<forall>s. analyze_devices [] s = (Inr (), s\<lparr>recommendations := recommendations s @ []\<rparr>)"
    by simp
  then show ?case by blast
next
  case (Cons v devs)
  then have okv: "device_ok v" and okr: "list_all device_ok devs" by simp_all
  obtain dev where dev: "v = PyDict dev" using okv by (cases v) simp_all
  obtain k x where x: "map_of dev ''porcentagem_uso'' = Some (PyFmt k x ''%'')"
    using okv dev by (auto split: option.splits pyval.splits)
  obtain r1 where r1: "\<forall>s. storage_recommendation dev x s =
           (Inr (), s\<lparr>recommendations := recommendations s @ r1\<rparr>)"
    using storage_recommendation_uniform okv dev by blast
  obtain r2 where r2: "\<forall>s. analyze_devices devs s =
           (Inr (), s\<lparr>recommendations := recommendations s @ r2\<rparr>)"
    using Cons.IH okr by blast
  have "\<forall>s. analyze_devices (v # devs) s =
           (Inr (), s\<lparr>recommendations := recommendations s @ (r1 @ r2)\<rparr>)"
    using dev x r1 r2 by simp
  then show ?case by blast
qed


lemma cpu_uso_atual:
  "returned get_cpu_info m = Inr d \<Longrightarrow> map_of d ''uso_atual'' = Some v \<Longrightarrow> \<exists>x. v = PyFmt 1 x ''%''"
  by (auto simp: returned_def get_cpu_info_def cpu_psutil_block_def cpu_cpuinfo_block_def
      cpu_temperature_block_def dict_update_def fstring_def update_conv' Let_def
      split: sum.splits if_splits option.splits prod.splits)

lemma cpu_never_raises: "\<exists>d. returned get_cpu_info m = Inr d"
  by (simp add: returned_def get_cpu_info_def Let_def split: sum.splits prod.splits)

lemma gpu_uso_gpu:
  "returned get_gpu_info m = Inr d \<Longrightarrow> map_of d ''uso_gpu'' = Some v \<Longrightarrow> \<exists>x. v = PyFmt 1 x ''%''"
  by (auto simp: returned_def get_gpu_info_def fstring_def update_conv' Let_def
      split: sum.splits if_splits list.splits)

lemma gpu_never_raises: "\<exists>d. returned get_gpu_info m = Inr d"
  by (simp add: returned_def get_gpu_info_def Let_def split: sum.splits list.splits)

lemma memory_porcentagem_uso:
  "returned get_memory_info m = Inr d \<Longrightarrow> map_of d ''porcentagem_uso'' = Some v \<Longrightarrow> \<exists>x. v = PyFmt 1 x ''%''"
  by (auto simp: returned_def get_memory_info_def swap_block_def memory_wmi_block_def dict_update_def fstring_def update_conv' Let_def
      split: sum.splits if_splits prod.splits)

lemma memory_never_raises: "\<exists>d. returned get_memory_info m = Inr d"
  by (simp add: returned_def get_memory_info_def Let_def split: sum.splits prod.splits)

lemma motherboard_never_raises: "\<exists>d. returned get_motherboard_info m = Inr d"
  by (simp add: returned_def get_motherboard_info_def Let_def split: sum.splits)

lemma system_never_raises: "\<exists>d. returned get_system_info m = Inr d"
  by (simp add: returned_def get_system_info_def Let_def split: sum.splits)

lemma network_never_raises: "\<exists>d. returned get_network_info m = Inr d"
  by (simp add: returned_def get_network_info_def Let_def split: sum.splits option.splits)

section \<open>The result of a full diagnostic\<close>

text \<open>
  No step of the analysis raises, so a full diagnostic runs the four alerting queries
  twice, once for the report and once for the analysis, and its lists are the alerts
  of these eight calls and the recommendations of the four steps and the two fixed
  ones.
\<close>

lemma analyze_cpu_frame:
  "analyze_cpu m s =
     (Inr (), s\<lparr>alerts := alerts s @ emitted get_cpu_info m,
               recommendations := recommendations s @ advised analyze_cpu m\<rparr>)"
proof -
  obtain d where d: "returned get_cpu_info m = Inr d" using cpu_never_raises by blast
  show ?thesis
  proof (cases "map_of d ''uso_atual''")
    case None
    then show ?thesis using d
      by (simp add: analyze_cpu_def advised_def get_cpu_info_frame init_def)
  next
    case (Some v)
    then obtain x where "v = PyFmt 1 x ''%''" using cpu_uso_atual d by blast
    then show ?thesis using d Some
      by (simp add: analyze_cpu_def advised_def get_cpu_info_frame init_def
          append_recommendation_def)
  qed
qed

lemma analyze_gpu_frame:
  "analyze_gpu m s =
     (Inr (), s\<lparr>alerts := alerts s @ emitted get_gpu_info m,
               recommendations := recommendations s @ advised analyze_gpu m\<rparr>)"
proof -
  obtain d where d: "returned get_gpu_info m = Inr d" using gpu_never_raises by blast
  show ?thesis
  proof (cases "map_of d ''uso_gpu''")
    case None
    then show ?thesis using d
      by (simp add: analyze_gpu_def advised_def get_gpu_info_frame init_def)
  next
    case (Some v)
    then obtain x where "v = PyFmt 1 x ''%''" using gpu_uso_gpu d by blast
    then show ?thesis using d Some
      by (simp add: analyze_gpu_def advised_def get_gpu_info_frame init_def
          append_recommendation_def)
  qed
qed

lemma analyze_memory_frame:
  "analyze_memory m s =
     (Inr (), s\<lparr>alerts := alerts s @ emitted get_memory_info m,
               recommendations := recommendations s @ advised analyze_memory m\<rparr>)"
proof -
  obtain d where d: "returned get_memory_info m = Inr d" using memory_never_raises by blast
  show ?thesis
  proof (cases "map_of d ''porcentagem_uso''")
    case None
    then show ?thesis using d
      by (simp add: analyze_memory_def advised_def get_memory_info_frame init_def)
  next
    case (Some v)
    then obtain x where "v = PyFmt 1 x ''%''" using memory_porcentagem_uso d by blast
    then show ?thesis using d Some
      by (simp add: analyze_memory_def advised_def get_memory_info_frame init_def
          append_recommendation_def)
  qed
qed

lemma analyze_storage_frame:
  "analyze_storage m s =
     (Inr (), s\<lparr>alerts := alerts s @ emitted get_storage_info m,
               recommendations := recommendations s @ advised analyze_storage m\<rparr>)"
proof -
  obtain d where d: "returned get_storage_info m = Inr d" using storage_never_raises by blast
  obtain devs where devs: "get_dispositivos d = Inr devs" "list_all device_ok devs"
    using storage_dispositivos d by blast
  obtain recs where recs: "\<forall>s. analyze_devices devs s =
      (Inr (), s\<lparr>recommendations := recommendations s @ recs\<rparr>)"
    using analyze_devices_uniform devs by blast
  have a: "analyze_storage m s =
     (Inr (), s\<lparr>alerts := alerts s @ emitted get_storage_info m,
               recommendations := recommendations s @ recs\<rparr>)" for s
    using d devs recs by (simp add: analyze_storage_def get_storage_info_frame)
  have "advised analyze_storage m = recs"
    by (simp add: advised_def a init_def)
  then show ?thesis using a by simp
qed

lemma analyze_health_and_recommendations_frame:
  "analyze_health_and_recommendations m s =
     (Inr (), s\<lparr>alerts := alerts s @ emitted get_cpu_info m @ emitted get_gpu_info m
                   @ emitted get_memory_info m @ emitted get_storage_info m,
               recommendations := advised analyze_cpu m @ advised analyze_gpu m
                   @ advised analyze_memory m @ advised analyze_storage m
                   @ recommendations (static_recommendations init)\<rparr>)"
  by (simp add: analyze_health_and_recommendations_def analyze_body_def analyze_cpu_frame
      analyze_gpu_frame analyze_memory_frame analyze_storage_frame static_recommendations_def
      append_recommendation_def init_def)

lemma diagnosis_thread_result:
  "diagnosis_thread m1 m2 s =
     s\<lparr>alerts := emitted get_cpu_info m1 @ emitted get_gpu_info m1
                   @ emitted get_memory_info m1 @ emitted get_storage_info m1
                   @ emitted get_cpu_info m2 @ emitted get_gpu_info m2
                   @ emitted get_memory_info m2 @ emitted get_storage_info m2,
       recommendations := advised analyze_cpu m2 @ advised analyze_gpu m2
                   @ advised analyze_memory m2 @ advised analyze_storage m2
                   @ recommendations (static_recommendations init)\<rparr>"
proof -
  obtain d1 where d1: "returned get_cpu_info m1 = Inr d1" using cpu_never_raises by blast
  obtain d2 where d2: "returned get_gpu_info m1 = Inr d2" using gpu_never_raises by blast
  obtain d3 where d3: "returned get_memory_info m1 = Inr d3" using memory_never_raises by blast
  obtain d4 where d4: "returned get_storage_info m1 = Inr d4" using storage_never_raises by blast
  obtain d5 where d5: "returned get_motherboard_info m1 = Inr d5"
    using motherboard_never_raises by blast
  obtain d6 where d6: "returned get_system_info m1 = Inr d6" using system_never_raises by blast
  obtain d7 where d7: "returned get_network_info m1 = Inr d7" using network_never_raises by blast
  show ?thesis
    using d1 d2 d3 d4 d5 d6 d7
    by (simp add: diagnosis_thread_def get_cpu_info_frame get_gpu_info_frame
        get_memory_info_frame get_storage_info_frame get_motherboard_info_frame
        get_system_info_frame get_network_info_frame
        analyze_health_and_recommendations_frame)
qed


text \<open>
  C4. A full diagnostic clears both lists before it fills them, and what it fills them
  with depends on what the machine answers only: from the same answers it builds the
  same alert list and the same recommendation list, whatever the lists held before,
  and running it again on its own result changes nothing.
\<close>

theorem diagnosis_is_deterministic:
  "alerts (diagnosis_thread m1 m2 s) = alerts (diagnosis_thread m1 m2 s')
   \<and> recommendations (diagnosis_thread m1 m2 s) = recommendations (diagnosis_thread m1 m2 s')
   \<and> diagnosis_thread m1 m2 (diagnosis_thread m1 m2 s) = diagnosis_thread m1 m2 s"
  by (simp add: diagnosis_thread_result)


section \<open>The monitoring loop\<close>

lemmas tick_defs = monitoring_tick_def tick_body_def tick_psutil_block_def tick_gpu_block_def
  tick_log_block_def get_cpu_temperature_def update_data_def append_log_def
  gui_during_tick_def stop_monitoring_def

lemmas session_defs = monitoring_session_def start_monitoring_def monitoring_thread_def
  finish_monitoring_def stats_line_def average_def

lemmas example_defs = quiet_tick_def stop_tick_def no_cpu_sensor_def with_gpu_load_def
  with_cpu_percent_def with_cpu_temperature_def linux_pc_def init_def contains_def lower_def
  lower_char_def




lemma toggle_on_running_session:
  "monitoring s \<Longrightarrow> snd (toggle_monitoring duration_var s) = stop_monitoring s"
  by (simp add: toggle_monitoring_def)

text \<open>
  C2 fails on the code. In a session of two turns where the CPU has no temperature
  sensor that answers in the first turn and reads 50 degrees in the second, the buffer
  holds two time stamps, two CPU and two memory readings, but one temperature only:
  the first turn's missing temperature was skipped, not recorded as missing, and the
  entry at index 0 of \<open>cpu_temp\<close> belongs to the second time stamp.
\<close>

theorem missing_temperature_is_skipped:
  "map_option monitoring_data
     (monitoring_session (Inr 1) 0
        [quiet_tick 0 (no_cpu_sensor linux_pc),
         quiet_tick 3 (with_cpu_temperature 50 linux_pc),
         quiet_tick 60 linux_pc] init) =
   Some \<lparr>cpu_usage = [10, 10], gpu_usage = [], memory_usage = [50, 50],
          cpu_temp = [50], gpu_temp = [], timestamps = [0, 3]\<rparr>"
  by (simp add: session_defs tick_defs example_defs Let_def)

text \<open>
  C8 fails on the code. A session of two turns with a GPU at 50 and 75 percent ends
  with a log that gives the mean and the maximum of the CPU and of the memory and
  nothing about the GPU, although the buffer holds the two GPU samples, which stay in
  it, and although \<open>generate_complete_report\<close> prints the mean and the maximum of
  the GPU from the same buffer.
\<close>

theorem finish_monitoring_omits_gpu:
  "map_option (\<lambda>s. (monitoring_log s, gpu_usage (monitoring_data s), generate_complete_report s))
     (monitoring_session (Inr 1) 0
        [quiet_tick 0 (with_gpu_load (1 / 2) linux_pc),
         quiet_tick 3 (with_gpu_load (3 / 4) (with_cpu_percent 30 linux_pc)),
         quiet_tick 60 linux_pc] init) =
   Some ([Monitoramento_iniciado 1, Inicio, Monitoramento_finalizado, Dados_coletados 2,
          Media_Maximo ''CPU'' 20 30, Media_Maximo ''RAM'' 50 50],
         [50, 75],
         [Periodo 2, Media_Maximo ''CPU'' 20 30, Media_Maximo ''RAM'' 50 50,
          Media_Maximo ''GPU'' (125 / 2) 75])"
  by (simp add: session_defs tick_defs example_defs generate_complete_report_def Let_def
      fmtf_def round_half_even_def)




section \<open>The alerts that a query appends\<close>

lemma emitted_get_cpu_info:
  "emitted get_cpu_info m = [] \<or>
   (\<exists>t. fst (get_cpu_temperature m s) = Inr (Some t) \<and> 75 < t
      \<and> emitted get_cpu_info m =
          (if 85 < t
           then [\<lparr>componente = CPU, prioridade = ALTA, tipo = CRITICO,
                   mensagem = Temperatura_critica (fmtf 1 t) 85\<rparr>]
           else [\<lparr>componente = CPU, prioridade = MEDIA, tipo = AVISO,
                   mensagem = Temperatura_alta (fmtf 1 t) 75\<rparr>]))"
proof (cases "cpu_psutil_block m [(''erro'', PyStr ''Informacoes nao disponiveis'')]")
  case (Inl e)
  then show ?thesis by (simp add: emitted_def get_cpu_info_def init_def)
next
  case (Inr d1)
  show ?thesis
  proof (cases "cpu_cpuinfo_block m d1")
    case (Inl e)
    then show ?thesis using Inr by (simp add: emitted_def get_cpu_info_def init_def)
  next
    case d2: (Inr d2)
    have e: "emitted get_cpu_info m = alerts (snd (cpu_temperature_block m d2 init))"
      using Inr d2 by (simp add: emitted_def get_cpu_info_def split: prod.splits)
    show ?thesis
      unfolding e
      by (auto simp: cpu_temperature_block_def get_cpu_temperature_def
          cpu_temperature_alert_def append_alert_def temp_limits_def init_def
          split: sum.splits option.splits)
  qed
qed

lemma emitted_get_gpu_info:
  "emitted get_gpu_info m = [] \<or>
   (\<exists>g others. has_GPUtil m \<and> getGPUs m = Inr (g # others) \<and> memoryTotal g \<noteq> 0
      \<and> (80 < temperature g \<or> 90 < memoryUsed g / memoryTotal g * 100)
      \<and> emitted get_gpu_info m =
          alerts (gpu_memory_alert (memoryUsed g / memoryTotal g * 100)
                   (gpu_temperature_alert (temperature g) init)))"
proof (cases "has_GPUtil m")
  case False
  then show ?thesis by (simp add: emitted_def get_gpu_info_def init_def)
next
  case True
  show ?thesis
  proof (cases "getGPUs m")
    case (Inl e)
    then show ?thesis using True by (simp add: emitted_def get_gpu_info_def init_def)
  next
    case (Inr gs)
    show ?thesis
    proof (cases gs)
      case Nil
      then show ?thesis using True Inr by (simp add: emitted_def get_gpu_info_def init_def)
    next
      case (Cons g others)
      then show ?thesis using True Inr
        by (simp add: emitted_def get_gpu_info_def gpu_temperature_alert_def
            gpu_memory_alert_def append_alert_def temp_limits_def init_def Let_def)
    qed
  qed
qed

lemma emitted_get_memory_info:
  "emitted get_memory_info m = [] \<or>
   (\<exists>mem. has_psutil m \<and> virtual_memory m = Inr mem
        \<and> (80 < vm_percent mem
             \<or> (\<exists>swap. swap_memory m = Inr swap \<and> 0 < sw_total swap \<and> 50 < sw_percent swap)))"
proof (cases "has_psutil m")
  case False
  then show ?thesis by (simp add: emitted_def get_memory_info_def init_def)
next
  case True
  show ?thesis
  proof (cases "virtual_memory m")
    case (Inl e)
    then show ?thesis using True by (simp add: emitted_def get_memory_info_def init_def)
  next
    case (Inr mem)
    show ?thesis
    proof (cases "swap_memory m")
      case (Inl e)
      then show ?thesis using True Inr
        by (simp add: emitted_def get_memory_info_def init_def memory_alert_def
            append_alert_def Let_def)
    next
      case swap: (Inr swap)
      then show ?thesis using True Inr
        by (simp add: emitted_def get_memory_info_def init_def memory_alert_def swap_block_def
            swap_alert_def append_alert_def Let_def)
    qed
  qed
qed

lemma disk_space_alert_cases:
  "alerts (disk_space_alert dev p s) =
     alerts s @ (if 95 < p then [\<lparr>componente = DISCO, prioridade = ALTA, tipo = CRITICO,
                                   mensagem = Espaco_critico_em dev (fmtf 1 p)\<rparr>]
                 else if 85 < p then [\<lparr>componente = DISCO, prioridade = MEDIA, tipo = AVISO,
                                   mensagem = Espaco_baixo_em dev (fmtf 1 p)\<rparr>]
                 else [])"
  by (simp add: disk_space_alert_def append_alert_def)

lemma partitions_loop_alerts:
  "a \<in> set (alerts (snd (snd (partitions_loop ps ds s)))) \<Longrightarrow>
   a \<in> set (alerts s) \<or>
   (\<exists>p usage. p \<in> set ps \<and> disk_usage p = Inr usage \<and> du_total usage \<noteq> 0
       \<and> 85 < usage_percent usage
       \<and> alerts (disk_space_alert (device p) (usage_percent usage) init) = [a])"
proof (induction ps arbitrary: ds s)
  case Nil
  then show ?case by simp
next
  case (Cons p ps)
  show ?case
  proof (cases "disk_usage p")
    case (Inl e)
    show ?thesis
    proof (cases "exn_cls e = PermissionError")
      case True
      then have "a \<in> set (alerts (snd (snd (partitions_loop ps ds s))))"
        using Cons.prems Inl by simp
      from Cons.IH[OF this] show ?thesis by auto
    next
      case False
      then show ?thesis using Cons.prems Inl by simp
    qed
  next
    case (Inr usage)
    show ?thesis
    proof (cases "du_total usage = 0")
      case True
      then show ?thesis using Inr Cons.prems by simp
    next
      case False
      let ?pc = "usage_percent usage"
      obtain di where step: "partitions_loop (p # ps) ds s =
          partitions_loop ps (ds @ [di]) (disk_space_alert (device p) ?pc s)"
        using Inr False by (simp add: Let_def usage_percent_def)
      have "a \<in> set (alerts (snd (snd (partitions_loop ps (ds @ [di])
                 (disk_space_alert (device p) ?pc s)))))"
        using Cons.prems step by simp
      from Cons.IH[OF this]
      consider (here) "a \<in> set (alerts (disk_space_alert (device p) ?pc s))"
        | (later) "\<exists>q usage. q \<in> set ps \<and> disk_usage q = Inr usage \<and> du_total usage \<noteq> 0
             \<and> 85 < usage_percent usage
             \<and> alerts (disk_space_alert (device q) (usage_percent usage) init) = [a]"
        by blast
      then show ?thesis
      proof cases
        case here
        then have "a \<in> set (alerts s) \<or>
          (85 < ?pc \<and> alerts (disk_space_alert (device p) ?pc init) = [a])"
          by (auto simp: disk_space_alert_cases init_def split: if_splits)
        then show ?thesis using Inr False by auto
      next
        case later
        then show ?thesis by auto
      qed
    qed
  qed
qed

lemma emitted_get_storage_info:
  assumes "a \<in> set (emitted get_storage_info m)"
  shows "\<exists>ps p usage. has_psutil m \<and> disk_partitions m = Inr ps \<and> p \<in> set ps
       \<and> disk_usage p = Inr usage \<and> du_total usage \<noteq> 0 \<and> 85 < usage_percent usage
       \<and> alerts (disk_space_alert (device p) (usage_percent usage) init) = [a]"
proof -
  have ps: "has_psutil m" using assms
    by (cases "has_psutil m") (simp_all add: emitted_def get_storage_info_def init_def)
  obtain ps where dp: "disk_partitions m = Inr ps" using assms ps
    by (cases "disk_partitions m") (simp_all add: emitted_def get_storage_info_def init_def)
  have "a \<in> set (alerts (snd (snd (partitions_loop ps [] init))))"
    using assms ps dp
    by (cases "partitions_loop ps [] init"; cases "fst (partitions_loop ps [] init)")
       (simp_all add: emitted_def get_storage_info_def Let_def)
  from partitions_loop_alerts[OF this] show ?thesis using ps dp by (auto simp: init_def)
qed

section \<open>The queries on the example machine\<close>

lemma sensor_names:
  "contains ''coretemp'' (lower ''coretemp'')"
  "\<not> contains ''coretemp'' (lower ''acpitz'')"
  "\<not> contains ''cpu'' (lower ''acpitz'')"
  by code_simp+

lemmas cpu_defs = get_cpu_info_def cpu_psutil_block_def cpu_cpuinfo_block_def
  cpu_temperature_block_def cpu_temperature_alert_def append_alert_def temp_limits_def

lemma emitted_cpu_linux_pc: "emitted get_cpu_info linux_pc = []"
  by (simp add: emitted_def cpu_defs linux_pc_def init_def Let_def sensor_names)

lemma emitted_cpu_with_temperature:
  "emitted get_cpu_info (with_cpu_temperature t linux_pc) = alerts (cpu_temperature_alert t init)"
  by (simp add: emitted_def cpu_defs with_cpu_temperature_def linux_pc_def init_def Let_def sensor_names)

lemma emitted_gpu_linux_pc: "emitted get_gpu_info (with_cpu_temperature t linux_pc) = []"
  by (simp add: emitted_def get_gpu_info_def with_cpu_temperature_def linux_pc_def init_def Let_def)

lemma emitted_memory_linux_pc: "emitted get_memory_info (with_cpu_temperature t linux_pc) = []"
  by (simp add: emitted_def get_memory_info_def memory_alert_def swap_block_def memory_wmi_block_def with_cpu_temperature_def linux_pc_def init_def Let_def)

lemma emitted_storage_linux_pc: "emitted get_storage_info (with_cpu_temperature t linux_pc) = []"
  by (simp add: emitted_def get_storage_info_def disk_space_alert_def with_cpu_temperature_def linux_pc_def init_def Let_def)

lemma fmtf_of_int: "fmtf d (of_int n) = of_int n"
  by (simp add: fmtf_def round_half_even_def Let_def flip: of_int_power of_int_mult)

lemma fmtf_numeral: "fmtf d (numeral n) = numeral n"
  using fmtf_of_int [of d "numeral n"] by simp

text \<open>
  C5, as the code has it. A call of \<open>get_cpu_info\<close>, \<open>get_gpu_info\<close>,
  \<open>get_memory_info\<close> or \<open>get_storage_info\<close> changes nothing in the state of the
  engine but the alert list, and the alert list only by appending the alerts of that
  call; when the call has no alert to raise, it leaves the whole state as it was. It
  has an alert to raise only when a reading is above a limit: a CPU temperature above
  75, a GPU temperature above 80 or a video memory more than 90 percent in use, a
  memory more than 80 percent or a swap file more than 50 percent in use, a partition
  more than 85 percent in use. A call of \<open>get_motherboard_info\<close>,
  \<open>get_system_info\<close> or \<open>get_network_info\<close> leaves the whole state unchanged.
\<close>

theorem queries_append_only_limit_alerts:
  "(\<forall>q \<in> {get_cpu_info, get_gpu_info, get_memory_info, get_storage_info}.
      snd (q m s) = s\<lparr>alerts := alerts s @ emitted q m\<rparr>
      \<and> (emitted q m = [] \<longrightarrow> snd (q m s) = s))
   \<and> (emitted get_cpu_info m = [] \<or>
       (\<exists>t. fst (get_cpu_temperature m s) = Inr (Some t) \<and> 75 < t
          \<and> emitted get_cpu_info m =
              (if 85 < t
               then [\<lparr>componente = CPU, prioridade = ALTA, tipo = CRITICO,
                       mensagem = Temperatura_critica (fmtf 1 t) 85\<rparr>]
               else [\<lparr>componente = CPU, prioridade = MEDIA, tipo = AVISO,
                       mensagem = Temperatura_alta (fmtf 1 t) 75\<rparr>])))
   \<and> (emitted get_gpu_info m = [] \<or>
       (\<exists>g others. has_GPUtil m \<and> getGPUs m = Inr (g # others) \<and> memoryTotal g \<noteq> 0
          \<and> (80 < temperature g \<or> 90 < memoryUsed g / memoryTotal g * 100)))
   \<and> (emitted get_memory_info m = [] \<or>
       (\<exists>mem. has_psutil m \<and> virtual_memory m = Inr mem
          \<and> (80 < vm_percent mem
               \<or> (\<exists>swap. swap_memory m = Inr swap \<and> 0 < sw_total swap
                     \<and> 50 < sw_percent swap))))
   \<and> (\<forall>a \<in> set (emitted get_storage_info m).
         \<exists>ps p usage. has_psutil m \<and> disk_partitions m = Inr ps \<and> p \<in> set ps
           \<and> disk_usage p = Inr usage \<and> du_total usage \<noteq> 0 \<and> 85 < usage_percent usage
           \<and> alerts (disk_space_alert (device p) (usage_percent usage) init) = [a])
   \<and> snd (get_motherboard_info m s) = s
   \<and> snd (get_system_info m s) = s
   \<and> snd (get_network_info m s) = s"
proof -
  have frames: "\<forall>q \<in> {get_cpu_info, get_gpu_info, get_memory_info, get_storage_info}.
      snd (q m s) = s\<lparr>alerts := alerts s @ emitted q m\<rparr>
      \<and> (emitted q m = [] \<longrightarrow> snd (q m s) = s)"
    by (simp add: get_cpu_info_frame get_gpu_info_frame get_memory_info_frame
        get_storage_info_frame)
  have gpu: "emitted get_gpu_info m = [] \<or>
       (\<exists>g others. has_GPUtil m \<and> getGPUs m = Inr (g # others) \<and> memoryTotal g \<noteq> 0
          \<and> (80 < temperature g \<or> 90 < memoryUsed g / memoryTotal g * 100))"
    using emitted_get_gpu_info [of m] by blast
  have sto: "\<forall>a \<in> set (emitted get_storage_info m).
         \<exists>ps p usage. has_psutil m \<and> disk_partitions m = Inr ps \<and> p \<in> set ps
           \<and> disk_usage p = Inr usage \<and> du_total usage \<noteq> 0 \<and> 85 < usage_percent usage
           \<and> alerts (disk_space_alert (device p) (usage_percent usage) init) = [a]"
    using emitted_get_storage_info by blast
  have mb: "snd (get_motherboard_info m s) = s" by (simp add: get_motherboard_info_frame)
  have sy: "snd (get_system_info m s) = s" by (simp add: get_system_info_frame)
  have nw: "snd (get_network_info m s) = s" by (simp add: get_network_info_frame)
  show ?thesis
    by (intro conjI frames emitted_get_cpu_info gpu emitted_get_memory_info sto mb sy nw)
qed

text \<open>
  C5 on a state in which every list holds something: at 60 degrees \<open>get_cpu_info\<close>
  returns that state, at 86 degrees it returns that state with the critical alert
  after the alert that was there.
\<close>

theorem queries_append_only_limit_alerts_witness:
  "get_cpu_info \<in> {get_cpu_info, get_gpu_info, get_memory_info, get_storage_info}
   \<and> emitted get_cpu_info linux_pc = []
   \<and> snd (get_cpu_info linux_pc busy_engine) = busy_engine
   \<and> snd (get_cpu_info (with_cpu_temperature 86 linux_pc) busy_engine) =
       busy_engine\<lparr>alerts :=
         [\<lparr>componente = SWAP, prioridade = BAIXA, tipo = AVISO,
            mensagem = Uso_alto_de_arquivo_de_troca 70\<rparr>,
          \<lparr>componente = CPU, prioridade = ALTA, tipo = CRITICO,
            mensagem = Temperatura_critica 86 85\<rparr>]\<rparr>"
proof -
  have e1: "emitted get_cpu_info linux_pc = []" by (rule emitted_cpu_linux_pc)
  have e2: "emitted get_cpu_info (with_cpu_temperature 86 linux_pc) =
      [\<lparr>componente = CPU, prioridade = ALTA, tipo = CRITICO,
         mensagem = Temperatura_critica 86 85\<rparr>]"
    by (simp add: emitted_cpu_with_temperature cpu_temperature_alert_def append_alert_def
        temp_limits_def init_def fmtf_numeral)
  show ?thesis
    using queries_append_only_limit_alerts [of linux_pc busy_engine, THEN conjunct1]
      queries_append_only_limit_alerts
        [of "with_cpu_temperature 86 linux_pc" busy_engine, THEN conjunct1]
      e1 e2
    by (simp add: busy_engine_def)
qed

section \<open>Alerts and recommendations by component\<close>

lemma cpu_alert_component: "a \<in> set (emitted get_cpu_info m) \<Longrightarrow> componente a = CPU"
  using emitted_get_cpu_info [of m init] by (auto split: if_splits)

lemma gpu_alert_component: "a \<in> set (emitted get_gpu_info m) \<Longrightarrow> componente a = GPU"
  using emitted_get_gpu_info [of m]
  by (auto simp: gpu_memory_alert_def gpu_temperature_alert_def append_alert_def init_def
      split: if_splits)

lemma storage_alert_component: "a \<in> set (emitted get_storage_info m) \<Longrightarrow> componente a = DISCO"
  using emitted_get_storage_info [of a m]
  by (auto simp: disk_space_alert_cases init_def split: if_splits)

lemma memory_alert_cases:
  "alerts (memory_alert p s) =
     alerts s @ (if 90 < p then [\<lparr>componente = RAM, prioridade = ALTA, tipo = CRITICO,
                                   mensagem = Uso_critico_de_memoria (fmtf 1 p)\<rparr>]
                 else if 80 < p then [\<lparr>componente = RAM, prioridade = MEDIA, tipo = AVISO,
                                   mensagem = Uso_alto_de_memoria (fmtf 1 p)\<rparr>]
                 else [])"
  by (simp add: memory_alert_def append_alert_def)

lemma emitted_memory_ram:
  assumes "has_psutil m" "virtual_memory m = Inr mem"
  shows "filter (\<lambda>a. componente a = RAM) (emitted get_memory_info m) =
           alerts (memory_alert (vm_percent mem) init)"
proof (cases "swap_memory m")
  case (Inl e)
  then show ?thesis using assms
    by (simp add: emitted_def get_memory_info_def memory_alert_def append_alert_def init_def
        Let_def)
next
  case (Inr swap)
  then show ?thesis using assms
    by (simp add: emitted_def get_memory_info_def memory_alert_def swap_block_def
        swap_alert_def append_alert_def init_def Let_def)
qed

lemma memory_porcentagem:
  assumes "has_psutil m" "virtual_memory m = Inr mem"
  shows "\<exists>d. returned get_memory_info m = Inr d
           \<and> map_of d ''porcentagem_uso'' = Some (PyFmt 1 (fmtf 1 (vm_percent mem)) ''%'')"
proof (cases "swap_memory m")
  case (Inl e)
  then show ?thesis using assms
    by (simp add: returned_def get_memory_info_def fstring_def update_conv' Let_def)
next
  case (Inr swap)
  then show ?thesis using assms
    by (simp add: returned_def get_memory_info_def swap_block_def memory_wmi_block_def
        dict_update_def fstring_def update_conv' Let_def split: sum.splits)
qed

lemma advised_memory:
  assumes "has_psutil m" "virtual_memory m = Inr mem"
  shows "advised analyze_memory m =
     (if 85 < fmtf 1 (vm_percent mem)
      then [\<lparr>componente = RAM, prioridade = ALTA, categoria = Hardware,
              problema = Uso_alto_de_memoria_RAM (fmtf 1 (fmtf 1 (vm_percent mem))),
              recomendacao = ''Considere adicionar mais RAM, feche aplicacoes nao utilizadas, verifique vazamentos de memoria''\<rparr>]
      else [])"
proof -
  obtain d where d: "returned get_memory_info m = Inr d"
    "map_of d ''porcentagem_uso'' = Some (PyFmt 1 (fmtf 1 (vm_percent mem)) ''%'')"
    using memory_porcentagem [OF assms] by blast
  show ?thesis
    using d
    by (simp add: advised_def analyze_memory_def get_memory_info_frame
        append_recommendation_def init_def)
qed

lemma cpu_recommendation_component:
  "r \<in> set (advised analyze_cpu m) \<Longrightarrow> componente r = CPU"
proof -
  obtain d where d: "returned get_cpu_info m = Inr d" using cpu_never_raises by blast
  assume r: "r \<in> set (advised analyze_cpu m)"
  show ?thesis
  proof (cases "map_of d ''uso_atual''")
    case None
    then show ?thesis using d r
      by (simp add: advised_def analyze_cpu_def get_cpu_info_frame init_def)
  next
    case (Some v)
    then obtain x where "v = PyFmt 1 x ''%''" using cpu_uso_atual d by blast
    then show ?thesis using d Some r
      by (simp add: advised_def analyze_cpu_def get_cpu_info_frame init_def
          append_recommendation_def split: if_splits)
  qed
qed

lemma gpu_recommendation_component:
  "r \<in> set (advised analyze_gpu m) \<Longrightarrow> componente r = GPU"
proof -
  obtain d where d: "returned get_gpu_info m = Inr d" using gpu_never_raises by blast
  assume r: "r \<in> set (advised analyze_gpu m)"
  show ?thesis
  proof (cases "map_of d ''uso_gpu''")
    case None
    then show ?thesis using d r
      by (simp add: advised_def analyze_gpu_def get_gpu_info_frame init_def)
  next
    case (Some v)
    then obtain x where "v = PyFmt 1 x ''%''" using gpu_uso_gpu d by blast
    then show ?thesis using d Some r
      by (simp add: advised_def analyze_gpu_def get_gpu_info_frame init_def
          append_recommendation_def split: if_splits)
  qed
qed

lemma storage_recommendation_component:
  "r \<in> set (recommendations (snd (storage_recommendation dev x s))) \<Longrightarrow>
   r \<in> set (recommendations s) \<or> componente r = DISCO"
  by (auto simp: storage_recommendation_def append_recommendation_def
      split: if_splits sum.splits)

lemma analyze_devices_component:
  "r \<in> set (recommendations (snd (analyze_devices devs s))) \<Longrightarrow>
   r \<in> set (recommendations s) \<or> componente r = DISCO"
proof (induction devs arbitrary: s)
  case Nil
  then show ?case by simp
next
  case (Cons v rest)
  show ?case
  proof (cases v)
    case (PyDict device_info)
    show ?thesis
    proof (cases "map_of device_info ''porcentagem_uso''")
      case None
      then show ?thesis using Cons PyDict by simp
    next
      case (Some x)
      show ?thesis
      proof (cases "float_without_percent x")
        case (Inl e)
        then show ?thesis using Cons.prems PyDict Some by simp
      next
        case (Inr usage)
        obtain res s' where sr: "storage_recommendation device_info usage s = (res, s')"
          by (cases "storage_recommendation device_info usage s") auto
        have s': "\<And>r. r \<in> set (recommendations s') \<Longrightarrow>
                   r \<in> set (recommendations s) \<or> componente r = DISCO"
          using storage_recommendation_component [of _ device_info usage s] sr by simp
        show ?thesis
        proof (cases res)
          case (Inl e)
          then show ?thesis using Cons.prems PyDict Some Inr sr s' by simp
        next
          case u: (Inr u)
          then have "r \<in> set (recommendations (snd (analyze_devices rest s')))"
            using Cons.prems PyDict Some Inr sr by simp
          from Cons.IH [OF this] s' show ?thesis by blast
        qed
      qed
    qed
  qed (insert Cons.prems, simp_all)
qed

lemma storage_recommendation_component_advised:
  "r \<in> set (advised analyze_storage m) \<Longrightarrow> componente r = DISCO"
proof -
  assume r: "r \<in> set (advised analyze_storage m)"
  obtain d where d: "returned get_storage_info m = Inr d" using storage_never_raises by blast
  show ?thesis
  proof (cases "get_dispositivos d")
    case (Inl e)
    then show ?thesis using r d
      by (simp add: advised_def analyze_storage_def get_storage_info_frame init_def)
  next
    case (Inr devs)
    then have "r \<in> set (recommendations (snd (analyze_devices devs
                 (init\<lparr>alerts := alerts init @ emitted get_storage_info m\<rparr>))))"
      using r d by (simp add: advised_def analyze_storage_def get_storage_info_frame)
    from analyze_devices_component [OF this] show ?thesis by (simp add: init_def)
  qed
qed

lemma static_recommendation_component:
  "r \<in> set (recommendations (static_recommendations init)) \<Longrightarrow> componente r \<noteq> RAM"
  by (auto simp: static_recommendations_def append_recommendation_def init_def)

lemma filter_none: "(\<And>x. x \<in> set xs \<Longrightarrow> \<not> P x) \<Longrightarrow> filter P xs = []"
  by (simp add: filter_empty_conv)

lemma ram_alerts_of_diagnosis:
  assumes "has_psutil m1" "virtual_memory m1 = Inr mem1"
    and "has_psutil m2" "virtual_memory m2 = Inr mem2"
  shows "filter (\<lambda>a. componente a = RAM) (alerts (diagnosis_thread m1 m2 s)) =
           alerts (memory_alert (vm_percent mem1) init)
           @ alerts (memory_alert (vm_percent mem2) init)"
proof -
  have c: "filter (\<lambda>a. componente a = RAM) (emitted get_cpu_info m) = []" for m
    by (rule filter_none) (auto dest: cpu_alert_component)
  have g: "filter (\<lambda>a. componente a = RAM) (emitted get_gpu_info m) = []" for m
    by (rule filter_none) (auto dest: gpu_alert_component)
  have d: "filter (\<lambda>a. componente a = RAM) (emitted get_storage_info m) = []" for m
    by (rule filter_none) (auto dest: storage_alert_component)
  show ?thesis
    by (simp add: diagnosis_thread_result c g d emitted_memory_ram [OF assms(1,2)]
        emitted_memory_ram [OF assms(3,4)])
qed

lemma ram_recommendations_of_diagnosis:
  assumes "has_psutil m2" "virtual_memory m2 = Inr mem2"
  shows "filter (\<lambda>r. componente r = RAM) (recommendations (diagnosis_thread m1 m2 s)) =
           advised analyze_memory m2"
proof -
  have c: "filter (\<lambda>r. componente r = RAM) (advised analyze_cpu m2) = []"
    by (rule filter_none) (auto dest: cpu_recommendation_component)
  have g: "filter (\<lambda>r. componente r = RAM) (advised analyze_gpu m2) = []"
    by (rule filter_none) (auto dest: gpu_recommendation_component)
  have d: "filter (\<lambda>r. componente r = RAM) (advised analyze_storage m2) = []"
    by (rule filter_none) (auto dest: storage_recommendation_component_advised)
  have t: "filter (\<lambda>r. componente r = RAM) (recommendations (static_recommendations init)) = []"
    by (rule filter_none) (auto dest: static_recommendation_component)
  have m: "filter (\<lambda>r. componente r = RAM) (advised analyze_memory m2) = advised analyze_memory m2"
    by (simp add: advised_memory [OF assms])
  show ?thesis
    by (simp add: diagnosis_thread_result c g d t m)
qed

text \<open>
  C7, as the code has it. When the memory is in use to \<open>p\<close> percent during a full
  diagnostic, the alerts on the RAM in the list are critical ones when \<open>p\<close> is
  above 90, warnings when \<open>p\<close> is above 80 and at most 90, and none otherwise; and
  the recommendations on the RAM are the one to add more RAM when \<open>p\<close>, printed
  with one decimal, is above 85, and none otherwise. So 91 percent gives a critical
  alert and the recommendation, and 81 percent gives a warning and no recommendation.
\<close>

theorem memory_alerts_and_recommendation:
  assumes "has_psutil m1" "virtual_memory m1 = Inr mem1" "vm_percent mem1 = p"
    and "has_psutil m2" "virtual_memory m2 = Inr mem2" "vm_percent mem2 = p"
  shows "set (filter (\<lambda>a. componente a = RAM) (alerts (diagnosis_thread m1 m2 s))) =
           (if 90 < p then {\<lparr>componente = RAM, prioridade = ALTA, tipo = CRITICO,
                               mensagem = Uso_critico_de_memoria (fmtf 1 p)\<rparr>}
            else if 80 < p then {\<lparr>componente = RAM, prioridade = MEDIA, tipo = AVISO,
                               mensagem = Uso_alto_de_memoria (fmtf 1 p)\<rparr>}
            else {})
         \<and> filter (\<lambda>r. componente r = RAM) (recommendations (diagnosis_thread m1 m2 s)) =
           (if 85 < fmtf 1 p
            then [\<lparr>componente = RAM, prioridade = ALTA, categoria = Hardware,
                    problema = Uso_alto_de_memoria_RAM (fmtf 1 (fmtf 1 p)),
                    recomendacao = ''Considere adicionar mais RAM, feche aplicacoes nao utilizadas, verifique vazamentos de memoria''\<rparr>]
            else [])"
  using ram_alerts_of_diagnosis [OF assms(1,2,4,5), of s]
    ram_recommendations_of_diagnosis [OF assms(4,5), of m1 s]
    advised_memory [OF assms(4,5)] assms(3,6)
  by (simp add: memory_alert_cases init_def)

lemma psutil_with_memory: "has_psutil (with_memory_percent p linux_pc)"
  by (simp add: with_memory_percent_def linux_pc_def)

lemma memory_with_memory:
  "virtual_memory (with_memory_percent p linux_pc) =
     Inr \<lparr>vm_total = 1000, vm_available = 500, vm_used = 500, vm_percent = p,
       vm_free = 500, vm_cached = None, vm_buffers = None\<rparr>"
  by (simp add: with_memory_percent_def)

text \<open>C7 at 91 percent, and its alerts at 81 percent.\<close>

theorem memory_alerts_and_recommendation_witness:
  "has_psutil (with_memory_percent 91 linux_pc)
   \<and> set (filter (\<lambda>a. componente a = RAM)
        (alerts (diagnosis_thread (with_memory_percent 91 linux_pc)
                   (with_memory_percent 91 linux_pc) init))) =
       {\<lparr>componente = RAM, prioridade = ALTA, tipo = CRITICO,
          mensagem = Uso_critico_de_memoria 91\<rparr>}
   \<and> filter (\<lambda>r. componente r = RAM)
        (recommendations (diagnosis_thread (with_memory_percent 91 linux_pc)
                   (with_memory_percent 91 linux_pc) init)) =
       [\<lparr>componente = RAM, prioridade = ALTA, categoria = Hardware,
          problema = Uso_alto_de_memoria_RAM 91,
          recomendacao = ''Considere adicionar mais RAM, feche aplicacoes nao utilizadas, verifique vazamentos de memoria''\<rparr>]
   \<and> set (filter (\<lambda>a. componente a = RAM)
        (alerts (diagnosis_thread (with_memory_percent 81 linux_pc)
                   (with_memory_percent 81 linux_pc) init))) =
       {\<lparr>componente = RAM, prioridade = MEDIA, tipo = AVISO,
          mensagem = Uso_alto_de_memoria 81\<rparr>}"
  using memory_alerts_and_recommendation
      [OF psutil_with_memory memory_with_memory _ psutil_with_memory memory_with_memory,
       of 91 91 91 init]
    memory_alerts_and_recommendation
      [OF psutil_with_memory memory_with_memory _ psutil_with_memory memory_with_memory,
       of 81 81 81 init]
  by (simp add: psutil_with_memory fmtf_numeral)

text \<open>
  C7 as the specification states it fails: after a full diagnostic at 81 percent the
  list holds no recommendation on the memory, since 81 is not above 85.
\<close>

theorem no_memory_recommendation_at_81:
  "filter (\<lambda>r. componente r = RAM)
     (recommendations (diagnosis_thread (with_memory_percent 81 linux_pc)
        (with_memory_percent 81 linux_pc) init)) = []"
proof -
  have "advised analyze_memory (with_memory_percent 81 linux_pc) = []"
    by (simp add: advised_memory [OF psutil_with_memory memory_with_memory] fmtf_numeral)
  then show ?thesis
    by (simp add: ram_recommendations_of_diagnosis [OF psutil_with_memory memory_with_memory])
qed

lemmas query_defs = get_cpu_info_def cpu_psutil_block_def cpu_cpuinfo_block_def
  cpu_temperature_block_def get_gpu_info_def get_memory_info_def swap_block_def
  memory_wmi_block_def get_storage_info_def storage_io_block_def storage_wmi_block_def
  get_motherboard_info_def get_system_info_def system_psutil_block_def get_network_info_def

lemma queries_ignore_disk_temperature:
  "get_cpu_info (m\<lparr>disk_temperature := t\<rparr>) = get_cpu_info m"
  "get_gpu_info (m\<lparr>disk_temperature := t\<rparr>) = get_gpu_info m"
  "get_memory_info (m\<lparr>disk_temperature := t\<rparr>) = get_memory_info m"
  "get_storage_info (m\<lparr>disk_temperature := t\<rparr>) = get_storage_info m"
  "get_motherboard_info (m\<lparr>disk_temperature := t\<rparr>) = get_motherboard_info m"
  "get_system_info (m\<lparr>disk_temperature := t\<rparr>) = get_system_info m"
  "get_network_info (m\<lparr>disk_temperature := t\<rparr>) = get_network_info m"
  by (simp_all add: query_defs fun_eq_iff Let_def
      cong: sum.case_cong option.case_cong list.case_cong prod.case_cong if_cong)

lemma analysis_ignores_disk_temperature:
  "analyze_cpu (m\<lparr>disk_temperature := t\<rparr>) = analyze_cpu m"
  "analyze_gpu (m\<lparr>disk_temperature := t\<rparr>) = analyze_gpu m"
  "analyze_memory (m\<lparr>disk_temperature := t\<rparr>) = analyze_memory m"
  "analyze_storage (m\<lparr>disk_temperature := t\<rparr>) = analyze_storage m"
  by (simp_all add: analyze_cpu_def analyze_gpu_def analyze_memory_def analyze_storage_def
      queries_ignore_disk_temperature fun_eq_iff)

lemma diagnosis_ignores_disk_temperature:
  "diagnosis_thread (m1\<lparr>disk_temperature := t1\<rparr>) (m2\<lparr>disk_temperature := t2\<rparr>) s =
     diagnosis_thread m1 m2 s"
  by (simp add: diagnosis_thread_result emitted_def advised_def
      queries_ignore_disk_temperature analysis_ignores_disk_temperature)

lemma memory_alert_component:
  assumes a: "a \<in> set (emitted get_memory_info m)"
  shows "componente a = RAM \<or> componente a = SWAP"
proof (cases "has_psutil m")
  case False
  then show ?thesis using a by (simp add: emitted_def get_memory_info_def init_def)
next
  case True
  show ?thesis
  proof (cases "virtual_memory m")
    case (Inl e)
    then show ?thesis using True a by (simp add: emitted_def get_memory_info_def init_def)
  next
    case (Inr mem)
    show ?thesis
    proof (cases "swap_memory m")
      case (Inl e)
      then show ?thesis using True Inr a
        by (auto simp: emitted_def get_memory_info_def init_def memory_alert_def
            append_alert_def Let_def split: if_splits)
    next
      case swap: (Inr swap)
      then show ?thesis using True Inr a
        by (auto simp: emitted_def get_memory_info_def init_def memory_alert_def swap_block_def
            swap_alert_def append_alert_def Let_def split: if_splits)
    qed
  qed
qed

lemma disk_alerts_of_diagnosis:
  assumes "a \<in> set (alerts (diagnosis_thread m1 m2 s))" "componente a = DISCO"
  shows "a \<in> set (emitted get_storage_info m1) \<or> a \<in> set (emitted get_storage_info m2)"
  using assms cpu_alert_component [of a] gpu_alert_component [of a]
    memory_alert_component [of a]
  by (auto simp: diagnosis_thread_result)

lemmas machine_defs = linux_pc_def with_cpu_temperature_def with_memory_percent_def
  with_disk_temperature_def with_disk_usage_def with_swap_percent_def with_gpu_def

lemmas alert_defs = cpu_temperature_alert_def gpu_temperature_alert_def gpu_memory_alert_def
  memory_alert_def swap_alert_def disk_space_alert_def append_alert_def temp_limits_def

lemmas emitted_simps = emitted_def query_defs machine_defs alert_defs init_def Let_def
  sensor_names fmtf_numeral

lemma quiet_queries:
  "emitted get_gpu_info (with_cpu_temperature t linux_pc) = []"
  "emitted get_memory_info (with_cpu_temperature t linux_pc) = []"
  "emitted get_storage_info (with_cpu_temperature t linux_pc) = []"
  "emitted get_cpu_info (with_disk_temperature t linux_pc) = []"
  "emitted get_gpu_info (with_disk_temperature t linux_pc) = []"
  "emitted get_memory_info (with_disk_temperature t linux_pc) = []"
  "emitted get_storage_info (with_disk_temperature t linux_pc) = []"
  by (simp_all add: emitted_simps)

lemma cpu_temperature_examples:
  "emitted get_cpu_info (with_cpu_temperature 86 linux_pc) =
     [\<lparr>componente = CPU, prioridade = ALTA, tipo = CRITICO,
        mensagem = Temperatura_critica 86 85\<rparr>]"
  "emitted get_cpu_info (with_cpu_temperature 76 linux_pc) =
     [\<lparr>componente = CPU, prioridade = MEDIA, tipo = AVISO,
        mensagem = Temperatura_alta 76 75\<rparr>]"
  "emitted get_cpu_info (with_cpu_temperature 60 linux_pc) = []"
  "emitted get_cpu_info (with_cpu_temperature 85 linux_pc) =
     [\<lparr>componente = CPU, prioridade = MEDIA, tipo = AVISO,
        mensagem = Temperatura_alta 85 75\<rparr>]"
  "emitted get_cpu_info (with_cpu_temperature 75 linux_pc) = []"
  by (simp_all add: emitted_simps)

text \<open>
  C1 fails on the code. The full diagnostic calls \<open>get_cpu_info\<close> for the report
  and again in \<open>analyze_health_and_recommendations\<close>, and clears the alerts before
  the first call only: at 86 degrees the list ends with two critical alerts on the
  CPU, at 76 degrees with two warnings, at 60 degrees with none.
\<close>

theorem cpu_alert_is_raised_twice:
  "alerts (diagnosis_thread (with_cpu_temperature 86 linux_pc)
             (with_cpu_temperature 86 linux_pc) s) =
     [\<lparr>componente = CPU, prioridade = ALTA, tipo = CRITICO,
        mensagem = Temperatura_critica 86 85\<rparr>,
      \<lparr>componente = CPU, prioridade = ALTA, tipo = CRITICO,
        mensagem = Temperatura_critica 86 85\<rparr>]
   \<and> alerts (diagnosis_thread (with_cpu_temperature 76 linux_pc)
             (with_cpu_temperature 76 linux_pc) s) =
     [\<lparr>componente = CPU, prioridade = MEDIA, tipo = AVISO,
        mensagem = Temperatura_alta 76 75\<rparr>,
      \<lparr>componente = CPU, prioridade = MEDIA, tipo = AVISO,
        mensagem = Temperatura_alta 76 75\<rparr>]
   \<and> alerts (diagnosis_thread (with_cpu_temperature 60 linux_pc)
             (with_cpu_temperature 60 linux_pc) s) = []"
  by (simp add: diagnosis_thread_result quiet_queries cpu_temperature_examples)

text \<open>
  C6 as the specification states it fails: with the disk at 61 degrees, and at 55, a
  full diagnostic ends with no alert at all.
\<close>

theorem hot_disk_raises_no_alert:
  "disk_temperature (with_disk_temperature 61 linux_pc) = Some 61
   \<and> alerts (diagnosis_thread (with_disk_temperature 61 linux_pc)
              (with_disk_temperature 61 linux_pc) init) = []
   \<and> disk_temperature (with_disk_temperature 55 linux_pc) = Some 55
   \<and> alerts (diagnosis_thread (with_disk_temperature 55 linux_pc)
              (with_disk_temperature 55 linux_pc) init) = []"
proof -
  have "disk_temperature (with_disk_temperature t linux_pc) = Some t" for t
    by (simp add: with_disk_temperature_def)
  then show ?thesis
    by (simp add: diagnosis_thread_result quiet_queries)
qed

text \<open>
  C6, as the code has it. The table holds 50 and 60 degrees for the disk, but no query
  reads the temperature of a disk: the result of a full diagnostic does not depend on
  it, and every alert on a disk in the list is the alert of a partition that is more
  than 85 percent in use, critical above 95 percent and a warning up to 95.
\<close>

theorem disk_alerts_are_space_alerts:
  "disk_warning temp_limits = 50 \<and> disk_critical temp_limits = 60
   \<and> diagnosis_thread (m1\<lparr>disk_temperature := t1\<rparr>) (m2\<lparr>disk_temperature := t2\<rparr>) s =
       diagnosis_thread m1 m2 s
   \<and> (\<forall>a \<in> set (alerts (diagnosis_thread m1 m2 s)). componente a = DISCO \<longrightarrow>
         (\<exists>m ps p usage. (m = m1 \<or> m = m2) \<and> has_psutil m \<and> disk_partitions m = Inr ps
            \<and> p \<in> set ps \<and> disk_usage p = Inr usage \<and> du_total usage \<noteq> 0
            \<and> 85 < usage_percent usage
            \<and> a = (if 95 < usage_percent usage
                    then \<lparr>componente = DISCO, prioridade = ALTA, tipo = CRITICO,
                          mensagem = Espaco_critico_em (device p)
                                       (fmtf 1 (usage_percent usage))\<rparr>
                    else \<lparr>componente = DISCO, prioridade = MEDIA, tipo = AVISO,
                          mensagem = Espaco_baixo_em (device p)
                                       (fmtf 1 (usage_percent usage))\<rparr>)))"
proof -
  have "\<exists>m ps p usage. (m = m1 \<or> m = m2) \<and> has_psutil m \<and> disk_partitions m = Inr ps
            \<and> p \<in> set ps \<and> disk_usage p = Inr usage \<and> du_total usage \<noteq> 0
            \<and> 85 < usage_percent usage
            \<and> a = (if 95 < usage_percent usage
                    then \<lparr>componente = DISCO, prioridade = ALTA, tipo = CRITICO,
                          mensagem = Espaco_critico_em (device p)
                                       (fmtf 1 (usage_percent usage))\<rparr>
                    else \<lparr>componente = DISCO, prioridade = MEDIA, tipo = AVISO,
                          mensagem = Espaco_baixo_em (device p)
                                       (fmtf 1 (usage_percent usage))\<rparr>)"
    if a: "a \<in> set (alerts (diagnosis_thread m1 m2 s))" "componente a = DISCO" for a
  proof -
    from disk_alerts_of_diagnosis [OF a] obtain m where
      m: "m = m1 \<or> m = m2" "a \<in> set (emitted get_storage_info m)" by blast
    from emitted_get_storage_info [OF m(2)] obtain ps p usage where
      p: "has_psutil m" "disk_partitions m = Inr ps" "p \<in> set ps" "disk_usage p = Inr usage"
         "du_total usage \<noteq> 0" "85 < usage_percent usage"
         "alerts (disk_space_alert (device p) (usage_percent usage) init) = [a]"
      by blast
    from p(6,7) have "a = (if 95 < usage_percent usage
                    then \<lparr>componente = DISCO, prioridade = ALTA, tipo = CRITICO,
                          mensagem = Espaco_critico_em (device p)
                                       (fmtf 1 (usage_percent usage))\<rparr>
                    else \<lparr>componente = DISCO, prioridade = MEDIA, tipo = AVISO,
                          mensagem = Espaco_baixo_em (device p)
                                       (fmtf 1 (usage_percent usage))\<rparr>)"
      by (simp add: disk_space_alert_cases init_def split: if_splits)
    with m(1) p(1-6) show ?thesis by blast
  qed
  then show ?thesis
    by (simp add: temp_limits_def diagnosis_ignores_disk_temperature)
qed

lemma full_disk_alerts:
  "emitted get_cpu_info full_disk_pc = []"
  "emitted get_gpu_info full_disk_pc = []"
  "emitted get_memory_info full_disk_pc = []"
  "emitted get_storage_info full_disk_pc =
     [\<lparr>componente = DISCO, prioridade = ALTA, tipo = CRITICO,
        mensagem = Espaco_critico_em ''/dev/sda1'' 96\<rparr>]"
  by (simp_all add: full_disk_pc_def emitted_simps)

text \<open>C6 on a cool disk that is 96 percent full.\<close>

theorem disk_alerts_are_space_alerts_witness:
  "\<lparr>componente = DISCO, prioridade = ALTA, tipo = CRITICO,
     mensagem = Espaco_critico_em ''/dev/sda1'' 96\<rparr>
     \<in> set (alerts (diagnosis_thread full_disk_pc full_disk_pc init))
   \<and> componente \<lparr>componente = DISCO, prioridade = ALTA, tipo = CRITICO,
        mensagem = Espaco_critico_em ''/dev/sda1'' 96\<rparr> = DISCO
   \<and> (\<exists>m ps p usage. (m = full_disk_pc \<or> m = full_disk_pc) \<and> has_psutil m
          \<and> disk_partitions m = Inr ps \<and> p \<in> set ps \<and> disk_usage p = Inr usage
          \<and> du_total usage \<noteq> 0 \<and> 85 < usage_percent usage
          \<and> \<lparr>componente = DISCO, prioridade = ALTA, tipo = CRITICO,
               mensagem = Espaco_critico_em ''/dev/sda1'' 96\<rparr> =
              (if 95 < usage_percent usage
               then \<lparr>componente = DISCO, prioridade = ALTA, tipo = CRITICO,
                     mensagem = Espaco_critico_em (device p) (fmtf 1 (usage_percent usage))\<rparr>
               else \<lparr>componente = DISCO, prioridade = MEDIA, tipo = AVISO,
                     mensagem = Espaco_baixo_em (device p) (fmtf 1 (usage_percent usage))\<rparr>))"
proof -
  have a: "\<lparr>componente = DISCO, prioridade = ALTA, tipo = CRITICO,
     mensagem = Espaco_critico_em ''/dev/sda1'' 96\<rparr>
     \<in> set (alerts (diagnosis_thread full_disk_pc full_disk_pc init))"
    by (simp add: diagnosis_thread_result full_disk_alerts)
  have c: "componente \<lparr>componente = DISCO, prioridade = ALTA, tipo = CRITICO,
        mensagem = Espaco_critico_em ''/dev/sda1'' 96\<rparr> = DISCO" by simp
  from disk_alerts_are_space_alerts
         [where ?m1.0 = full_disk_pc and ?m2.0 = full_disk_pc and s = init] a c
  show ?thesis by blast
qed

text \<open>
  C10. Every comparison that raises an alert is strict. A reading equal to the
  critical limit gives the warning (CPU at 85 degrees, GPU at 90, memory at 90
  percent, a partition at 95 percent), and a reading equal to the only or the lower
  limit gives nothing (CPU at 75, GPU at 80, video memory at 90 percent, memory at 80
  percent, swap at 50 percent, a partition at 85 percent); this holds of each rule on
  every state and of the queries run on such a machine.
\<close>

theorem limits_are_strict:
  "alerts (cpu_temperature_alert 85 s) =
     alerts s @ [\<lparr>componente = CPU, prioridade = MEDIA, tipo = AVISO,
                  mensagem = Temperatura_alta 85 75\<rparr>]
   \<and> cpu_temperature_alert 75 s = s
   \<and> alerts (gpu_temperature_alert 90 s) =
     alerts s @ [\<lparr>componente = GPU, prioridade = MEDIA, tipo = AVISO,
                  mensagem = Temperatura_alta 90 80\<rparr>]
   \<and> gpu_temperature_alert 80 s = s
   \<and> gpu_memory_alert 90 s = s
   \<and> alerts (memory_alert 90 s) =
     alerts s @ [\<lparr>componente = RAM, prioridade = MEDIA, tipo = AVISO,
                  mensagem = Uso_alto_de_memoria 90\<rparr>]
   \<and> memory_alert 80 s = s
   \<and> swap_alert 50 s = s
   \<and> alerts (disk_space_alert dev 95 s) =
     alerts s @ [\<lparr>componente = DISCO, prioridade = MEDIA, tipo = AVISO,
                  mensagem = Espaco_baixo_em dev 95\<rparr>]
   \<and> disk_space_alert dev 85 s = s
   \<and> emitted get_cpu_info (with_cpu_temperature 85 linux_pc) =
     [\<lparr>componente = CPU, prioridade = MEDIA, tipo = AVISO,
        mensagem = Temperatura_alta 85 75\<rparr>]
   \<and> emitted get_cpu_info (with_cpu_temperature 75 linux_pc) = []
   \<and> emitted get_gpu_info (with_gpu 90 90 linux_pc) =
     [\<lparr>componente = GPU, prioridade = MEDIA, tipo = AVISO,
        mensagem = Temperatura_alta 90 80\<rparr>]
   \<and> emitted get_gpu_info (with_gpu 80 90 linux_pc) = []
   \<and> emitted get_memory_info (with_memory_percent 90 linux_pc) =
     [\<lparr>componente = RAM, prioridade = MEDIA, tipo = AVISO,
        mensagem = Uso_alto_de_memoria 90\<rparr>]
   \<and> emitted get_memory_info (with_memory_percent 80 linux_pc) = []
   \<and> emitted get_memory_info (with_swap_percent 50 linux_pc) = []
   \<and> emitted get_storage_info (with_disk_usage 95 100 linux_pc) =
     [\<lparr>componente = DISCO, prioridade = MEDIA, tipo = AVISO,
        mensagem = Espaco_baixo_em ''/dev/sda1'' 95\<rparr>]
   \<and> emitted get_storage_info (with_disk_usage 85 100 linux_pc) = []"
proof -
  have rules:
    "alerts (cpu_temperature_alert 85 s) =
       alerts s @ [\<lparr>componente = CPU, prioridade = MEDIA, tipo = AVISO,
                    mensagem = Temperatura_alta 85 75\<rparr>]"
    "cpu_temperature_alert 75 s = s"
    "alerts (gpu_temperature_alert 90 s) =
       alerts s @ [\<lparr>componente = GPU, prioridade = MEDIA, tipo = AVISO,
                    mensagem = Temperatura_alta 90 80\<rparr>]"
    "gpu_temperature_alert 80 s = s"
    "gpu_memory_alert 90 s = s"
    "alerts (memory_alert 90 s) =
       alerts s @ [\<lparr>componente = RAM, prioridade = MEDIA, tipo = AVISO,
                    mensagem = Uso_alto_de_memoria 90\<rparr>]"
    "memory_alert 80 s = s"
    "swap_alert 50 s = s"
    "alerts (disk_space_alert dev 95 s) =
       alerts s @ [\<lparr>componente = DISCO, prioridade = MEDIA, tipo = AVISO,
                    mensagem = Espaco_baixo_em dev 95\<rparr>]"
    "disk_space_alert dev 85 s = s"
    by (simp_all add: alert_defs fmtf_numeral)
  have queries:
    "emitted get_cpu_info (with_cpu_temperature 85 linux_pc) =
       [\<lparr>componente = CPU, prioridade = MEDIA, tipo = AVISO,
          mensagem = Temperatura_alta 85 75\<rparr>]"
    "emitted get_cpu_info (with_cpu_temperature 75 linux_pc) = []"
    "emitted get_gpu_info (with_gpu 90 90 linux_pc) =
       [\<lparr>componente = GPU, prioridade = MEDIA, tipo = AVISO,
          mensagem = Temperatura_alta 90 80\<rparr>]"
    "emitted get_gpu_info (with_gpu 80 90 linux_pc) = []"
    "emitted get_memory_info (with_memory_percent 90 linux_pc) =
       [\<lparr>componente = RAM, prioridade = MEDIA, tipo = AVISO,
          mensagem = Uso_alto_de_memoria 90\<rparr>]"
    "emitted get_memory_info (with_memory_percent 80 linux_pc) = []"
    "emitted get_memory_info (with_swap_percent 50 linux_pc) = []"
    "emitted get_storage_info (with_disk_usage 95 100 linux_pc) =
       [\<lparr>componente = DISCO, prioridade = MEDIA, tipo = AVISO,
          mensagem = Espaco_baixo_em ''/dev/sda1'' 95\<rparr>]"
    "emitted get_storage_info (with_disk_usage 85 100 linux_pc) = []"
    by (simp_all add: emitted_simps)
  show ?thesis
    by (intro conjI rules queries)
qed

section \<open>Errors of the libraries\<close>












end
